theory Spec2Isabelle
  imports Main
begin

section \<open>Data model\<close>

text \<open>
  Every \<^verbatim>\<open>throw new Error(msg)\<close> of the source is a value \<open>Error msg\<close>; the
  \<^verbatim>\<open>TypeError\<close> that JavaScript raises when a property of \<^verbatim>\<open>undefined\<close> is read
  is a constructor of its own. A function that can throw returns \<open>error + 'a\<close>
  (\<open>Inl\<close> is the rejection of the promise), paired with the state it leaves behind.
\<close>

datatype error = Error (message: string) | TypeError (message: string)

text \<open>
  The \<^verbatim>\<open>User\<close> object, with the fields \<^verbatim>\<open>src/auth/index.ts\<close> reads or writes.
  Every field is optional (\<^verbatim>\<open>Partial<User>\<close>): \<open>None\<close> is \<^verbatim>\<open>undefined\<close> or
  \<^verbatim>\<open>null\<close>. \<open>u_id\<close> is the field \<^verbatim>\<open>_id\<close>. A \<^verbatim>\<open>Date\<close> is its number of
  milliseconds since the epoch.
\<close>

record user =
  u_id :: "string option"
  email :: "string option"
  password :: "string option"
  username :: "string option"
  role :: "string option"
  lastAuthMethod :: "string option"
  isRegistered :: "bool option"
  failedAttempts :: "int option"
  lockoutUntil :: "int option"

text \<open>
  The object literal handed to \<^verbatim>\<open>db.updateUserAttributes\<close> by \<^verbatim>\<open>login\<close>: a key
  that is absent is \<open>None\<close>; \<^verbatim>\<open>lockoutUntil: null\<close> is \<open>Some None\<close>.
\<close>

record user_attrs =
  set_failedAttempts :: "int option"
  set_lockoutUntil :: "int option option"

record session =
  session_id :: string
  user_id :: string
  device_id :: string
  expires :: int

text \<open>JavaScript truthiness of an optional string: \<^verbatim>\<open>undefined\<close> and \<^verbatim>\<open>''\<close> are falsy.\<close>

fun truthy :: "string option \<Rightarrow> bool" where
  "truthy None = False"
| "truthy (Some s) = (s \<noteq> [])"

section \<open>The persistence port\<close>

text \<open>
  \<^verbatim>\<open>Auth\<close> is constructed over a \<^verbatim>\<open>dbAdapter: authDBInterface\<close> and reaches the store
  only through it, so the adapter is a parameter of every operation: a record of the
  methods \<^verbatim>\<open>index.ts\<close> calls, over a store of any type \<open>'db\<close>. Each method returns
  its result, or the error it rejects with, and the store it leaves.
\<close>

record 'db authDBInterface =
  db_createUser :: "user \<Rightarrow> 'db \<Rightarrow> (error + user option) \<times> 'db"
  db_getUserByEmail :: "string \<Rightarrow> 'db \<Rightarrow> (error + user option) \<times> 'db"
  db_updateUserAttributes :: "string option \<Rightarrow> user_attrs \<Rightarrow> 'db \<Rightarrow> (error + unit) \<times> 'db"
  db_getActiveSessionByDeviceId :: "string \<Rightarrow> string \<Rightarrow> 'db \<Rightarrow> (error + session option) \<times> 'db"
  db_updateSessionExpiry :: "string \<Rightarrow> int \<Rightarrow> 'db \<Rightarrow> (error + session) \<times> 'db"
  db_createSession :: "string \<Rightarrow> string \<Rightarrow> int \<Rightarrow> 'db \<Rightarrow> (error + session) \<times> 'db"
  db_destroySession :: "string \<Rightarrow> 'db \<Rightarrow> (error + unit) \<times> 'db"
  db_validateSession :: "string \<Rightarrow> 'db \<Rightarrow> (error + user option) \<times> 'db"

section \<open>Auth.login\<close>

text \<open>
  \<^verbatim>\<open>login(email, password)\<close> of \<^verbatim>\<open>src/auth/index.ts\<close>. \<open>verify\<close> is
  \<^verbatim>\<open>argon2.verify\<close> (it may throw); \<open>now\<close> is the clock reading of the call. The
  state is the store together with the list of \<open>(hash, password)\<close> pairs \<open>verify\<close> was
  invoked on, in order. The lookup stands outside the \<^verbatim>\<open>try\<close>; the \<^verbatim>\<open>catch\<close> rethrows
  the error it caught unchanged.
\<close>

definition login ::
  "'db authDBInterface \<Rightarrow> (string \<Rightarrow> string \<Rightarrow> error + bool) \<Rightarrow> int \<Rightarrow> string \<Rightarrow> string \<Rightarrow>
   'db \<times> (string \<times> string) list \<Rightarrow> (error + user option) \<times> ('db \<times> (string \<times> string) list)" where
  "login A verify now em pw s =
    (case s of (d, calls) \<Rightarrow>
      (case db_getUserByEmail A em d of
        (Inl e, d1) \<Rightarrow> (Inl e, (d1, calls))
      | (Inr None, d1) \<Rightarrow> (Inr None, (d1, calls))
      | (Inr (Some u), d1) \<Rightarrow>
          (case password u of
            None \<Rightarrow> (Inr None, (d1, calls))
          | Some h \<Rightarrow>
              if h = [] then (Inr None, (d1, calls))
              else if (case lockoutUntil u of None \<Rightarrow> False | Some t \<Rightarrow> now < t)
              then (Inl (Error ''Account is temporarily locked. Please try again later.''), (d1, calls))
              else
                (case verify h pw of
                  Inl e \<Rightarrow> (Inl e, (d1, calls @ [(h, pw)]))
                | Inr True \<Rightarrow>
                    (case db_updateUserAttributes A (u_id u)
                            \<lparr>set_failedAttempts = Some 0, set_lockoutUntil = Some None\<rparr> d1 of
                      (Inl e, d2) \<Rightarrow> (Inl e, (d2, calls @ [(h, pw)]))
                    | (Inr _, d2) \<Rightarrow> (Inr (Some u), (d2, calls @ [(h, pw)])))
                | Inr False \<Rightarrow>
                    (let fa = (case failedAttempts u of None \<Rightarrow> 0 | Some n \<Rightarrow> n) + 1 in
                     if fa \<ge> 5 then
                       (case db_updateUserAttributes A (u_id u)
                               \<lparr>set_failedAttempts = Some fa,
                                set_lockoutUntil = Some (Some (now + 30 * 60 * 1000))\<rparr> d1 of
                         (Inl e, d2) \<Rightarrow> (Inl e, (d2, calls @ [(h, pw)]))
                       | (Inr _, d2) \<Rightarrow>
                           (Inl (Error ''Account is temporarily locked due to too many failed attempts. Please try again later.''),
                            (d2, calls @ [(h, pw)])))
                     else
                       (case db_updateUserAttributes A (u_id u)
                               \<lparr>set_failedAttempts = Some fa, set_lockoutUntil = None\<rparr> d1 of
                         (Inl e, d2) \<Rightarrow> (Inl e, (d2, calls @ [(h, pw)]))
                       | (Inr _, d2) \<Rightarrow>
                           (Inl (Error ''Invalid credentials. Please try again.''),
                            (d2, calls @ [(h, pw)]))))))))"

section \<open>An in-memory persistence adapter\<close>

text \<open>
  Modelled from the spec: the implementation of \<^verbatim>\<open>authDBInterface\<close> (the MongoDB user
  and session adapters) is not among the source files. The store holds the user and
  the session records. Following sections 3, 4.3 and 6 of the specification:
  a user is found by its email or its id; \<^verbatim>\<open>updateUserAttributes\<close> overwrites the
  attributes it is given on the user with that id; \<^verbatim>\<open>getActiveSessionByDeviceId\<close>
  finds a session of the pair that has not expired; \<^verbatim>\<open>updateSessionExpiry\<close> sets
  \<open>expires\<close> to now plus the new ttl and returns the session; \<^verbatim>\<open>createSession\<close>
  stores a session expiring at now plus the ttl; \<^verbatim>\<open>destroySession\<close> deletes by id;
  \<^verbatim>\<open>validateSession\<close> returns the user of a session that exists and has not expired,
  and \<^verbatim>\<open>null\<close> otherwise. \<open>now\<close> is the clock of the store and \<open>fresh\<close> the id it
  gives to a record it creates.
\<close>

record memdb =
  users :: "user list"
  sessions :: "session list"

definition apply_attrs :: "user_attrs \<Rightarrow> user \<Rightarrow> user" where
  "apply_attrs a u =
    (let u1 = (case set_failedAttempts a of None \<Rightarrow> u | Some n \<Rightarrow> u\<lparr>failedAttempts := Some n\<rparr>)
     in (case set_lockoutUntil a of None \<Rightarrow> u1 | Some l \<Rightarrow> u1\<lparr>lockoutUntil := l\<rparr>))"

definition mem_createUser :: "string \<Rightarrow> user \<Rightarrow> memdb \<Rightarrow> (error + user option) \<times> memdb" where
  "mem_createUser fresh data d =
    (let u = data\<lparr>u_id := Some fresh\<rparr> in (Inr (Some u), d\<lparr>users := users d @ [u]\<rparr>))"

definition mem_getUserByEmail :: "string \<Rightarrow> memdb \<Rightarrow> (error + user option) \<times> memdb" where
  "mem_getUserByEmail em d = (Inr (find (\<lambda>u. email u = Some em) (users d)), d)"

definition mem_updateUserAttributes ::
  "string option \<Rightarrow> user_attrs \<Rightarrow> memdb \<Rightarrow> (error + unit) \<times> memdb" where
  "mem_updateUserAttributes uid a d =
    (Inr (), d\<lparr>users := map (\<lambda>u. if uid \<noteq> None \<and> u_id u = uid then apply_attrs a u else u) (users d)\<rparr>)"

definition mem_getActiveSessionByDeviceId ::
  "int \<Rightarrow> string \<Rightarrow> string \<Rightarrow> memdb \<Rightarrow> (error + session option) \<times> memdb" where
  "mem_getActiveSessionByDeviceId now uid did d =
    (Inr (find (\<lambda>s. user_id s = uid \<and> device_id s = did \<and> now < expires s) (sessions d)), d)"

definition mem_updateSessionExpiry ::
  "int \<Rightarrow> string \<Rightarrow> int \<Rightarrow> memdb \<Rightarrow> (error + session) \<times> memdb" where
  "mem_updateSessionExpiry now sid ttl d =
    (case find (\<lambda>s. session_id s = sid) (sessions d) of
      None \<Rightarrow> (Inl (Error ''Session not found''), d)
    | Some s \<Rightarrow>
        (Inr (s\<lparr>expires := now + ttl\<rparr>),
         d\<lparr>sessions := map (\<lambda>x. if session_id x = sid then x\<lparr>expires := now + ttl\<rparr> else x) (sessions d)\<rparr>))"

definition mem_createSession ::
  "int \<Rightarrow> string \<Rightarrow> string \<Rightarrow> string \<Rightarrow> int \<Rightarrow> memdb \<Rightarrow> (error + session) \<times> memdb" where
  "mem_createSession now fresh uid did ttl d =
    (let s = \<lparr>session_id = fresh, user_id = uid, device_id = did, expires = now + ttl\<rparr>
     in (Inr s, d\<lparr>sessions := sessions d @ [s]\<rparr>))"

definition mem_destroySession :: "string \<Rightarrow> memdb \<Rightarrow> (error + unit) \<times> memdb" where
  "mem_destroySession sid d = (Inr (), d\<lparr>sessions := filter (\<lambda>s. session_id s \<noteq> sid) (sessions d)\<rparr>)"

definition mem_validateSession :: "int \<Rightarrow> string \<Rightarrow> memdb \<Rightarrow> (error + user option) \<times> memdb" where
  "mem_validateSession now sid d =
    (case find (\<lambda>s. session_id s = sid \<and> now < expires s) (sessions d) of
      None \<Rightarrow> (Inr None, d)
    | Some s \<Rightarrow> (Inr (find (\<lambda>u. u_id u = Some (user_id s)) (users d)), d))"

definition mem_adapter :: "int \<Rightarrow> string \<Rightarrow> memdb authDBInterface" where
  "mem_adapter now fresh =
    \<lparr>db_createUser = mem_createUser fresh,
     db_getUserByEmail = mem_getUserByEmail,
     db_updateUserAttributes = mem_updateUserAttributes,
     db_getActiveSessionByDeviceId = mem_getActiveSessionByDeviceId now,
     db_updateSessionExpiry = mem_updateSessionExpiry now,
     db_createSession = mem_createSession now fresh,
     db_destroySession = mem_destroySession,
     db_validateSession = mem_validateSession now\<rparr>"

lemmas mem_adapter_simps =
  mem_adapter_def mem_createUser_def mem_getUserByEmail_def mem_updateUserAttributes_def
  mem_getActiveSessionByDeviceId_def mem_updateSessionExpiry_def mem_createSession_def
  mem_destroySession_def mem_validateSession_def apply_attrs_def

section \<open>Auth.createUser and Auth.createSession\<close>

text \<open>
  \<^verbatim>\<open>createUser(userData)\<close>. \<open>hash\<close> is \<^verbatim>\<open>argon2.hash\<close> with the fixed attributes
  (it may throw). The whole body stands in a \<^verbatim>\<open>try\<close> whose \<^verbatim>\<open>catch\<close> throws
  \<^verbatim>\<open>Failed to create user: \<close> followed by the message of what it caught. The object
  handed to \<^verbatim>\<open>db.createUser\<close> has no \<^verbatim>\<open>_id\<close> and no \<^verbatim>\<open>lockoutUntil\<close>.
\<close>

definition createUser ::
  "'db authDBInterface \<Rightarrow> (string \<Rightarrow> error + string) \<Rightarrow> user \<Rightarrow> 'db \<Rightarrow> (error + user) \<times> 'db" where
  "createUser A hash userData d =
    (case (case password userData of
             None \<Rightarrow> Inr None
           | Some p \<Rightarrow> if p = [] then Inr None
                      else (case hash p of Inl e \<Rightarrow> Inl e | Inr hp \<Rightarrow> Inr (Some hp))) of
      Inl e \<Rightarrow> (Inl (Error (''Failed to create user: '' @ message e)), d)
    | Inr hashedPassword \<Rightarrow>
        (case db_createUser A
                \<lparr>u_id = None, email = email userData, password = hashedPassword,
                 username = username userData, role = role userData,
                 lastAuthMethod = lastAuthMethod userData, isRegistered = isRegistered userData,
                 failedAttempts = Some 0, lockoutUntil = None\<rparr> d of
          (Inl e, d1) \<Rightarrow> (Inl (Error (''Failed to create user: '' @ message e)), d1)
        | (Inr None, d1) \<Rightarrow>
            (Inl (Error ''Failed to create user: User creation failed: No user ID returned''), d1)
        | (Inr (Some u), d1) \<Rightarrow>
            if \<not> truthy (u_id u)
            then (Inl (Error ''Failed to create user: User creation failed: No user ID returned''), d1)
            else (Inr u, d1)))"

text \<open>
  \<^verbatim>\<open>createSession({ user_id, device_id, expires = 60 * 60 * 1000, isExtended = false })\<close>.
  An argument that is left out is \<open>None\<close> and takes its default. There is no
  \<^verbatim>\<open>try\<close>: an error of the port propagates as it is.
\<close>

definition createSession ::
  "'db authDBInterface \<Rightarrow> string \<Rightarrow> string \<Rightarrow> int option \<Rightarrow> bool option \<Rightarrow> 'db \<Rightarrow>
   (error + session) \<times> 'db" where
  "createSession A uid did expires_arg isExtended_arg d =
    (let ttl = (case expires_arg of None \<Rightarrow> 60 * 60 * 1000 | Some e \<Rightarrow> e);
         isExtended = (case isExtended_arg of None \<Rightarrow> False | Some b \<Rightarrow> b)
     in if uid = [] \<or> did = []
        then (Inl (Error ''user_id and device_id are required to create a session''), d)
        else
          (case db_getActiveSessionByDeviceId A uid did d of
            (Inl e, d1) \<Rightarrow> (Inl e, d1)
          | (Inr (Some existingSession), d1) \<Rightarrow>
              db_updateSessionExpiry A (session_id existingSession)
                (if isExtended then ttl * 2 else ttl) d1
          | (Inr None, d1) \<Rightarrow>
              db_createSession A uid did (if isExtended then ttl * 2 else ttl) d1))"

section \<open>The cache module (databases/redis.ts)\<close>

text \<open>
  The Redis server behind \<^verbatim>\<open>redisClient\<close>, as far as the module uses it: the commands
  GET, SET with EX and DEL on string keys. An entry is a key, a value and the instant
  (milliseconds) at which it expires; a command throws when the connection is down,
  and SET throws on an expiry that is not positive.
\<close>

record redis_client =
  entries :: "(string \<times> string \<times> int) list"
  connected :: bool

definition redis_get :: "redis_client \<Rightarrow> int \<Rightarrow> string \<Rightarrow> error + string option" where
  "redis_get c now k =
    (if \<not> connected c then Inl (Error ''The client is closed'')
     else Inr (case map_of (entries c) k of
                 None \<Rightarrow> None
               | Some (v, until) \<Rightarrow> if now < until then Some v else None))"

definition redis_set :: "redis_client \<Rightarrow> int \<Rightarrow> string \<Rightarrow> string \<Rightarrow> int \<Rightarrow> error + redis_client" where
  "redis_set c now k v ex =
    (if \<not> connected c then Inl (Error ''The client is closed'')
     else if ex \<le> 0 then Inl (Error ''ERR invalid expire time in set command'')
     else Inr (c\<lparr>entries := (k, v, now + ex * 1000) # filter (\<lambda>e. fst e \<noteq> k) (entries c)\<rparr>))"

definition redis_del :: "redis_client \<Rightarrow> string \<Rightarrow> error + redis_client" where
  "redis_del c k =
    (if \<not> connected c then Inl (Error ''The client is closed'')
     else Inr (c\<lparr>entries := filter (\<lambda>e. fst e \<noteq> k) (entries c)\<rparr>))"

text \<open>
  \<^verbatim>\<open>JSON.stringify\<close> and \<^verbatim>\<open>JSON.parse\<close> on the cached type; both may throw.
\<close>

record 'a json =
  JSON_stringify :: "'a \<Rightarrow> error + string"
  JSON_parse :: "string \<Rightarrow> error + 'a"

text \<open>
  The module's state is the variable \<^verbatim>\<open>redisClient\<close>: \<open>None\<close> is \<^verbatim>\<open>null\<close>, the
  value it has when Redis is disabled or its initialisation failed. Every function
  catches what the client throws, so each one always resolves; the result type still
  carries the error side, and the theorems prove it is never taken.
\<close>

text \<open>
  \<^verbatim>\<open>initializeRedis\<close>: \<open>connection\<close> is the outcome of creating the client and
  connecting it. When Redis is disabled the variable keeps its value, which is
  \<^verbatim>\<open>null\<close> at module load.
\<close>

definition initializeRedis ::
  "bool \<Rightarrow> error + redis_client \<Rightarrow> redis_client option \<Rightarrow> redis_client option" where
  "initializeRedis USE_REDIS connection redisClient =
    (if \<not> USE_REDIS then redisClient
     else (case connection of Inl e \<Rightarrow> None | Inr c \<Rightarrow> Some c))"

definition getCache ::
  "'a json \<Rightarrow> redis_client option \<Rightarrow> int \<Rightarrow> string \<Rightarrow> error + 'a option" where
  "getCache J redisClient now key =
    (case redisClient of
      None \<Rightarrow> Inr None
    | Some c \<Rightarrow>
        (case redis_get c now key of
          Inl e \<Rightarrow> Inr None
        | Inr None \<Rightarrow> Inr None
        | Inr (Some v) \<Rightarrow>
            if v = [] then Inr None
            else (case JSON_parse J v of Inl e \<Rightarrow> Inr None | Inr x \<Rightarrow> Inr (Some x))))"

definition setCache ::
  "'a json \<Rightarrow> redis_client option \<Rightarrow> int \<Rightarrow> string \<Rightarrow> 'a \<Rightarrow> int option \<Rightarrow>
   (error + unit) \<times> redis_client option" where
  "setCache J redisClient now key v expirationInSeconds =
    (case redisClient of
      None \<Rightarrow> (Inr (), None)
    | Some c \<Rightarrow>
        (case JSON_stringify J v of
          Inl e \<Rightarrow> (Inr (), Some c)
        | Inr txt \<Rightarrow>
            (case redis_set c now key txt
                    (case expirationInSeconds of None \<Rightarrow> 3600 | Some n \<Rightarrow> n) of
              Inl e \<Rightarrow> (Inr (), Some c)
            | Inr c' \<Rightarrow> (Inr (), Some c'))))"

definition clearCache ::
  "redis_client option \<Rightarrow> string \<Rightarrow> (error + unit) \<times> redis_client option" where
  "clearCache redisClient key =
    (case redisClient of
      None \<Rightarrow> (Inr (), None)
    | Some c \<Rightarrow>
        (case redis_del c key of
          Inl e \<Rightarrow> (Inr (), Some c)
        | Inr c' \<Rightarrow> (Inr (), Some c')))"

definition getCachedSession ::
  "'a json \<Rightarrow> redis_client option \<Rightarrow> int \<Rightarrow> string \<Rightarrow> error + 'a option" where
  "getCachedSession J redisClient now sessionId = getCache J redisClient now (''session:'' @ sessionId)"

definition setCachedSession ::
  "'a json \<Rightarrow> redis_client option \<Rightarrow> int \<Rightarrow> string \<Rightarrow> 'a \<Rightarrow> int option \<Rightarrow>
   (error + unit) \<times> redis_client option" where
  "setCachedSession J redisClient now sessionId u expirationInSeconds =
    setCache J redisClient now (''session:'' @ sessionId) u
      (Some (case expirationInSeconds of None \<Rightarrow> 3600 | Some n \<Rightarrow> n))"

definition clearCachedSession ::
  "redis_client option \<Rightarrow> string \<Rightarrow> (error + unit) \<times> redis_client option" where
  "clearCachedSession redisClient sessionId = clearCache redisClient (''session:'' @ sessionId)"

lemmas cache_simps =
  getCachedSession_def setCachedSession_def clearCachedSession_def
  getCache_def setCache_def clearCache_def redis_get_def redis_set_def redis_del_def

section \<open>Auth.validateSession and Auth.destroySession\<close>

text \<open>
  Both work on the store and on \<^verbatim>\<open>redisClient\<close>; \<open>USE_REDIS\<close> is
  \<^verbatim>\<open>privateEnv.USE_REDIS\<close>. Their \<^verbatim>\<open>catch\<close> wraps the message of whatever was thrown
  in the \<^verbatim>\<open>try\<close>, the guard on the session id included.
\<close>

definition validateSession ::
  "'db authDBInterface \<Rightarrow> user json \<Rightarrow> bool \<Rightarrow> int \<Rightarrow> string \<Rightarrow> 'db \<times> redis_client option \<Rightarrow>
   (error + user option) \<times> ('db \<times> redis_client option)" where
  "validateSession A J USE_REDIS now sid s =
    (case s of (d, rc) \<Rightarrow>
      if sid = []
      then (Inl (Error (''Failed to validate session: '' @ ''Session ID is undefined'')), (d, rc))
      else
        (case (if USE_REDIS then getCachedSession J rc now sid else Inr None) of
          Inl e \<Rightarrow> (Inl (Error (''Failed to validate session: '' @ message e)), (d, rc))
        | Inr (Some u) \<Rightarrow> (Inr (Some u), (d, rc))
        | Inr None \<Rightarrow>
            (case db_validateSession A sid d of
              (Inl e, d1) \<Rightarrow> (Inl (Error (''Failed to validate session: '' @ message e)), (d1, rc))
            | (Inr None, d1) \<Rightarrow> (Inr None, (d1, rc))
            | (Inr (Some u), d1) \<Rightarrow>
                if USE_REDIS then
                  (case setCachedSession J rc now sid u None of
                    (Inl e, rc1) \<Rightarrow>
                      (Inl (Error (''Failed to validate session: '' @ message e)), (d1, rc1))
                  | (Inr _, rc1) \<Rightarrow> (Inr (Some u), (d1, rc1)))
                else (Inr (Some u), (d1, rc)))))"

definition destroySession ::
  "'db authDBInterface \<Rightarrow> bool \<Rightarrow> string \<Rightarrow> 'db \<times> redis_client option \<Rightarrow>
   (error + unit) \<times> ('db \<times> redis_client option)" where
  "destroySession A USE_REDIS sid s =
    (case s of (d, rc) \<Rightarrow>
      (case db_destroySession A sid d of
        (Inl e, d1) \<Rightarrow> (Inl (Error (''Failed to destroy session: '' @ message e)), (d1, rc))
      | (Inr _, d1) \<Rightarrow>
          if USE_REDIS then
            (case clearCachedSession rc sid of
              (Inl e, rc1) \<Rightarrow> (Inl (Error (''Failed to destroy session: '' @ message e)), (d1, rc1))
            | (Inr _, rc1) \<Rightarrow> (Inr (), (d1, rc1)))
          else (Inr (), (d1, rc))))"

section \<open>Roles (auth/mongoDBAuth/roleAdapter.ts)\<close>

text \<open>
  A document of the collection \<^verbatim>\<open>auth_roles\<close>, by \<^verbatim>\<open>RoleSchema\<close>: a name, an optional
  description and the list of the ids of its permissions, which Mongoose initialises
  to the empty array. The generated \<^verbatim>\<open>_id\<close> and the timestamps are left out. The
  collection is the list of its documents in insertion order; saving a document whose
  required \<^verbatim>\<open>name\<close> is missing or empty fails validation.
\<close>

record role_doc =
  r_name :: "string option"
  r_description :: "string option"
  r_permissions :: "string list"

definition createRole ::
  "role_doc \<Rightarrow> string \<Rightarrow> role_doc list \<Rightarrow> (error + role_doc) \<times> role_doc list" where
  "createRole roleData currentUserId coll =
    (if \<not> truthy (r_name roleData)
     then (Inl (Error ''auth_roles validation failed: name is required''), coll)
     else (Inr roleData, coll @ [roleData]))"

definition getRoleByName :: "string \<Rightarrow> role_doc list \<Rightarrow> error + role_doc option" where
  "getRoleByName nm coll = Inr (find (\<lambda>r. r_name r = Some nm) coll)"

definition defaultRoles :: "(string \<times> string) list" where
  "defaultRoles =
    [(''admin'', ''Administrator with all permissions''),
     (''developer'', ''Developer with elevated permissions''),
     (''editor'', ''Content editor''),
     (''user'', ''Regular user with basic permissions'')]"

text \<open>
  The \<^verbatim>\<open>for ... of\<close> loop of \<^verbatim>\<open>initializeDefaultRoles\<close> over the remaining default
  roles; the \<^verbatim>\<open>catch\<close> rethrows.
\<close>

fun seedRoles :: "(string \<times> string) list \<Rightarrow> role_doc list \<Rightarrow> (error + unit) \<times> role_doc list" where
  "seedRoles [] coll = (Inr (), coll)"
| "seedRoles ((nm, descr) # rest) coll =
    (case getRoleByName nm coll of
      Inl e \<Rightarrow> (Inl e, coll)
    | Inr (Some existingRole) \<Rightarrow> seedRoles rest coll
    | Inr None \<Rightarrow>
        (case createRole \<lparr>r_name = Some nm, r_description = Some descr, r_permissions = []\<rparr>
                ''system'' coll of
          (Inl e, coll1) \<Rightarrow> (Inl e, coll1)
        | (Inr _, coll1) \<Rightarrow> seedRoles rest coll1))"

definition initializeDefaultRoles :: "role_doc list \<Rightarrow> (error + unit) \<times> role_doc list" where
  "initializeDefaultRoles coll = seedRoles defaultRoles coll"

section \<open>The default permission matrix and sanitizePermissions\<close>

text \<open>
  A JavaScript object with string keys is the list of its own properties in insertion
  order, with distinct keys. \<open>obj_set\<close> is the assignment \<^verbatim>\<open>o[k] = v\<close> (and one key of
  a spread literal \<^verbatim>\<open>{...o, [k]: v}\<close>): an existing key keeps its place. \<open>obj_delete\<close>
  is \<^verbatim>\<open>delete o[k]\<close>.
\<close>

type_synonym 'v obj = "(string \<times> 'v) list"

fun obj_set :: "string \<Rightarrow> 'v \<Rightarrow> 'v obj \<Rightarrow> 'v obj" where
  "obj_set k v [] = [(k, v)]"
| "obj_set k v ((k', v') # kvs) = (if k' = k then (k, v) # kvs else (k', v') # obj_set k v kvs)"

definition obj_delete :: "string \<Rightarrow> 'v obj \<Rightarrow> 'v obj" where
  "obj_delete k kvs = filter (\<lambda>kv. fst kv \<noteq> k) kvs"

definition adminRole :: string where
  "adminRole = ''admin''"

definition flexibleRoles :: "string list" where
  "flexibleRoles = [''developer'', ''editor'', ''user'']"

definition roles :: "string list" where
  "roles = adminRole # flexibleRoles"

definition permissions :: "string list" where
  "permissions = [''create'', ''read'', ''write'', ''delete'']"

text \<open>The two nested \<^verbatim>\<open>reduce\<close> calls with the \<^verbatim>\<open>switch\<close> on the role.\<close>

definition defaultPermissions :: "bool obj obj" where
  "defaultPermissions =
    foldl (\<lambda>acc r.
        obj_set r
          (foldl (\<lambda>acc permission.
              if r = ''admin'' \<or> r = ''developer'' then obj_set permission True acc
              else if r = ''editor'' then obj_set permission True acc
              else if r = ''user'' then obj_set ''write'' False (obj_set permission True acc)
              else obj_set permission False acc)
            [] permissions)
          acc)
      [] roles"

text \<open>
  The inner \<^verbatim>\<open>reduce\<close> of \<^verbatim>\<open>sanitizePermissions\<close> over the properties of one role:
  \<open>dflt\<close> is \<^verbatim>\<open>defaultPermissions[r]\<close>, \<open>None\<close> when the role has no default, and then
  reading \<^verbatim>\<open>defaultPermissions[r][p]\<close> throws a TypeError. A permission the default
  does not have is \<^verbatim>\<open>undefined\<close> there, which \<^verbatim>\<open>!=\<close> tells from both booleans.
\<close>

fun sanitizeRole :: "bool obj option \<Rightarrow> bool obj \<Rightarrow> bool obj \<Rightarrow> error + bool obj" where
  "sanitizeRole dflt [] acc = Inr acc"
| "sanitizeRole dflt ((p, v) # rest) acc =
    (case dflt of
      None \<Rightarrow> Inl (TypeError ''Cannot read properties of undefined'')
    | Some d \<Rightarrow> sanitizeRole dflt rest (if map_of d p \<noteq> Some v then obj_set p v acc else acc))"

text \<open>The outer \<^verbatim>\<open>reduce\<close> over the roles of the argument.\<close>

fun sanitizeRoles :: "bool obj obj \<Rightarrow> bool obj obj \<Rightarrow> error + bool obj obj" where
  "sanitizeRoles [] acc = Inr acc"
| "sanitizeRoles ((r, ps) # rest) acc =
    (case sanitizeRole (map_of defaultPermissions r) ps [] of
      Inl e \<Rightarrow> Inl e
    | Inr diff \<Rightarrow>
        sanitizeRoles rest
          (if length (map fst diff) = 0 then obj_delete r (obj_set r diff acc)
           else obj_set r diff acc))"

text \<open>\<open>None\<close> is the result \<^verbatim>\<open>undefined\<close>.\<close>

definition sanitizePermissions :: "bool obj obj \<Rightarrow> error + bool obj obj option" where
  "sanitizePermissions perms =
    (case sanitizeRoles perms [] of
      Inl e \<Rightarrow> Inl e
    | Inr res \<Rightarrow> if length (map fst res) = 0 then Inr None else Inr (Some res))"

text \<open>
  The matrix \<open>m\<close> with the value of permission \<open>p\<close> of role \<open>r\<close> negated, and the
  lookup \<^verbatim>\<open>m[r][p]\<close>, for stating what \<open>sanitizePermissions\<close> returns.
\<close>

definition flipPermission :: "string \<Rightarrow> string \<Rightarrow> bool obj obj \<Rightarrow> bool obj obj" where
  "flipPermission r p m =
    map (\<lambda>(r', ps). (r', if r' = r then map (\<lambda>(p', v). (p', if p' = p then \<not> v else v)) ps else ps)) m"

definition lookupPermission :: "bool obj obj \<Rightarrow> string \<Rightarrow> string \<Rightarrow> bool option" where
  "lookupPermission m r p = (case map_of m r of None \<Rightarrow> None | Some ps \<Rightarrow> map_of ps p)"

section \<open>JSON.stringify and JSON.parse on a user object\<close>

text \<open>
  What the cache module serialises is the JavaScript object it is handed. The record
  \<open>user\<close> above takes a \<^verbatim>\<open>Date\<close> for its instant; to tell a \<^verbatim>\<open>Date\<close> from the string
  JSON turns it into, the object is here the list of its own properties, each with a
  JavaScript value: \<^verbatim>\<open>undefined\<close>, \<^verbatim>\<open>null\<close>, a boolean, an integer number, a string,
  or a \<^verbatim>\<open>Date\<close>, which is given by the text its \<^verbatim>\<open>toISOString()\<close> returns.
\<close>

datatype jsvalue = JUndefined | JNull | JBoolean bool | JNumber int | JString string | JDate string

text \<open>
  \<^verbatim>\<open>JSON.stringify\<close> of such an object: a property whose value is \<^verbatim>\<open>undefined\<close> is left
  out; a string is quoted, with the quote, the backslash and the control characters
  escaped; a \<^verbatim>\<open>Date\<close> is written through its \<^verbatim>\<open>toJSON\<close>, as the quoted ISO text; the
  members are joined by commas with no white space.
\<close>

definition hexDigit :: "nat \<Rightarrow> char" where
  "hexDigit n = ''0123456789abcdef'' ! (n mod 16)"

function decimal :: "nat \<Rightarrow> string" where
  "decimal n = (if n < 10 then [hexDigit n] else decimal (n div 10) @ [hexDigit (n mod 10)])"
  by pat_completeness auto
termination
  by (relation "measure id") auto

declare decimal.simps [simp del]

fun escapeChars :: "string \<Rightarrow> string" where
  "escapeChars [] = []"
| "escapeChars (c # cs) =
    (if c = CHR 0x22 then CHR 0x5C # CHR 0x22 # escapeChars cs
     else if c = CHR 0x5C then CHR 0x5C # CHR 0x5C # escapeChars cs
     else if c = CHR 0x08 then CHR 0x5C # CHR ''b'' # escapeChars cs
     else if c = CHR 0x09 then CHR 0x5C # CHR ''t'' # escapeChars cs
     else if c = CHR 0x0A then CHR 0x5C # CHR ''n'' # escapeChars cs
     else if c = CHR 0x0C then CHR 0x5C # CHR ''f'' # escapeChars cs
     else if c = CHR 0x0D then CHR 0x5C # CHR ''r'' # escapeChars cs
     else if (of_char c :: nat) < 32
       then CHR 0x5C # CHR ''u'' # CHR ''0'' # CHR ''0'' #
            hexDigit (of_char c div 16) # hexDigit (of_char c) # escapeChars cs
     else c # escapeChars cs)"

definition quoted :: "string \<Rightarrow> string" where
  "quoted s = CHR 0x22 # escapeChars s @ [CHR 0x22]"

fun valueText :: "jsvalue \<Rightarrow> string option" where
  "valueText JUndefined = None"
| "valueText JNull = Some ''null''"
| "valueText (JBoolean b) = Some (if b then ''true'' else ''false'')"
| "valueText (JNumber i) = Some (if i < 0 then CHR ''-'' # decimal (nat (- i)) else decimal (nat i))"
| "valueText (JString s) = Some (quoted s)"
| "valueText (JDate d) = Some (quoted d)"

fun memberTexts :: "jsvalue obj \<Rightarrow> string list" where
  "memberTexts [] = []"
| "memberTexts ((k, v) # kvs) =
    (case valueText v of
      None \<Rightarrow> memberTexts kvs
    | Some t \<Rightarrow> (quoted k @ CHR '':'' # t) # memberTexts kvs)"

fun joinComma :: "string list \<Rightarrow> string" where
  "joinComma [] = []"
| "joinComma [t] = t"
| "joinComma (t # ts) = t @ CHR '','' # joinComma ts"

definition jsonText :: "jsvalue obj \<Rightarrow> string" where
  "jsonText ob = CHR ''{'' # joinComma (memberTexts ob) @ ''}''"

text \<open>
  \<^verbatim>\<open>JSON.parse\<close> of the text of a flat object, in two passes. The first cuts the text
  into tokens, character by character: outside a token, inside a bare word (a number
  or a literal), inside a string, after a backslash, and inside the four hexadecimal
  digits of a unicode escape. \<open>None\<close> is a SyntaxError.
\<close>

datatype token = TLBrace | TRBrace | TColon | TComma | TString string | TWord string

datatype lexmode = Outside | InWord string | InString string | InEscape string
  | InUnicode string "nat list"

definition hexValue :: "char \<Rightarrow> nat option" where
  "hexValue c =
    (let n = (of_char c :: nat) in
     if 48 \<le> n \<and> n \<le> 57 then Some (n - 48)
     else if 97 \<le> n \<and> n \<le> 102 then Some (n - 87)
     else if 65 \<le> n \<and> n \<le> 70 then Some (n - 55)
     else None)"

definition whitespace :: "char \<Rightarrow> bool" where
  "whitespace c = (c = CHR '' '' \<or> c = CHR 0x09 \<or> c = CHR 0x0A \<or> c = CHR 0x0D)"

definition punctuation :: "char \<Rightarrow> token option" where
  "punctuation c =
    (if c = CHR ''{'' then Some TLBrace else if c = CHR ''}'' then Some TRBrace
     else if c = CHR '':'' then Some TColon else if c = CHR '','' then Some TComma else None)"

definition emit :: "token \<Rightarrow> token list option \<Rightarrow> token list option" where
  "emit t r = map_option ((#) t) r"

fun tokenise :: "lexmode \<Rightarrow> string \<Rightarrow> token list option" where
  "tokenise Outside [] = Some []"
| "tokenise (InWord w) [] = Some [TWord (rev w)]"
| "tokenise (InString s) [] = None"
| "tokenise (InEscape s) [] = None"
| "tokenise (InUnicode s hs) [] = None"
| "tokenise Outside (c # cs) =
    (case punctuation c of
      Some t \<Rightarrow> emit t (tokenise Outside cs)
    | None \<Rightarrow>
        if whitespace c then tokenise Outside cs
        else if c = CHR 0x22 then tokenise (InString []) cs
        else tokenise (InWord [c]) cs)"
| "tokenise (InWord w) (c # cs) =
    (case punctuation c of
      Some t \<Rightarrow> emit (TWord (rev w)) (emit t (tokenise Outside cs))
    | None \<Rightarrow>
        if whitespace c then emit (TWord (rev w)) (tokenise Outside cs)
        else if c = CHR 0x22 then None
        else tokenise (InWord (c # w)) cs)"
| "tokenise (InString s) (c # cs) =
    (if c = CHR 0x22 then emit (TString (rev s)) (tokenise Outside cs)
     else if c = CHR 0x5C then tokenise (InEscape s) cs
     else if (of_char c :: nat) < 32 then None
     else tokenise (InString (c # s)) cs)"
| "tokenise (InEscape s) (c # cs) =
    (if c = CHR 0x22 \<or> c = CHR 0x5C \<or> c = CHR ''/'' then tokenise (InString (c # s)) cs
     else if c = CHR ''b'' then tokenise (InString (CHR 0x08 # s)) cs
     else if c = CHR ''t'' then tokenise (InString (CHR 0x09 # s)) cs
     else if c = CHR ''n'' then tokenise (InString (CHR 0x0A # s)) cs
     else if c = CHR ''f'' then tokenise (InString (CHR 0x0C # s)) cs
     else if c = CHR ''r'' then tokenise (InString (CHR 0x0D # s)) cs
     else if c = CHR ''u'' then tokenise (InUnicode s []) cs
     else None)"
| "tokenise (InUnicode s hs) (c # cs) =
    (case hexValue c of
      None \<Rightarrow> None
    | Some h \<Rightarrow>
        if length hs < 3 then tokenise (InUnicode s (hs @ [h])) cs
        else (let n = foldl (\<lambda>a d. 16 * a + d) 0 (hs @ [h])
              in if n < 256 then tokenise (InString (char_of n # s)) cs else None))"

text \<open>
  The second pass reads the members from the tokens. A number has no leading zero;
  of a key that occurs twice the last value stands, at the place of the first. A text
  that is valid JSON but not a flat object of these values is outside this model and
  is reported as an error; \<open>setCache\<close> writes no such text for a user object.
\<close>

definition digitValue :: "char \<Rightarrow> nat option" where
  "digitValue c = (let n = (of_char c :: nat) in if 48 \<le> n \<and> n \<le> 57 then Some (n - 48) else None)"

fun digitsValue :: "nat \<Rightarrow> string \<Rightarrow> nat option" where
  "digitsValue a [] = Some a"
| "digitsValue a (c # cs) = (case digitValue c of None \<Rightarrow> None | Some d \<Rightarrow> digitsValue (10 * a + d) cs)"

definition naturalValue :: "string \<Rightarrow> nat option" where
  "naturalValue w =
    (case w of
      [] \<Rightarrow> None
    | c # cs \<Rightarrow> if c = CHR ''0'' \<and> cs \<noteq> [] then None else digitsValue 0 w)"

definition wordValue :: "string \<Rightarrow> jsvalue option" where
  "wordValue w =
    (if w = ''true'' then Some (JBoolean True)
     else if w = ''false'' then Some (JBoolean False)
     else if w = ''null'' then Some JNull
     else (case w of
             [] \<Rightarrow> None
           | c # cs \<Rightarrow>
               if c = CHR ''-'' then map_option (\<lambda>n. JNumber (- int n)) (naturalValue cs)
               else map_option (\<lambda>n. JNumber (int n)) (naturalValue w)))"

fun tokenValue :: "token \<Rightarrow> jsvalue option" where
  "tokenValue (TString s) = Some (JString s)"
| "tokenValue (TWord w) = wordValue w"
| "tokenValue t = None"

fun parseMembers :: "token list \<Rightarrow> jsvalue obj option" where
  "parseMembers [TString k, TColon, v, TRBrace] =
    (case tokenValue v of None \<Rightarrow> None | Some x \<Rightarrow> Some [(k, x)])"
| "parseMembers (TString k # TColon # v # TComma # rest) =
    (case tokenValue v of
      None \<Rightarrow> None
    | Some x \<Rightarrow> (case parseMembers rest of None \<Rightarrow> None | Some kvs \<Rightarrow> Some ((k, x) # kvs)))"
| "parseMembers ts = None"

definition jsonParse :: "string \<Rightarrow> error + jsvalue obj" where
  "jsonParse txt =
    (case tokenise Outside txt of
      None \<Rightarrow> Inl (Error ''SyntaxError: invalid JSON'')
    | Some ts \<Rightarrow>
        (case ts of
          [] \<Rightarrow> Inl (Error ''SyntaxError: Unexpected end of JSON input'')
        | t # rest \<Rightarrow>
            if t \<noteq> TLBrace then Inl (Error ''not an object'')
            else if rest = [TRBrace] then Inr []
            else (case parseMembers rest of
                    None \<Rightarrow> Inl (Error ''SyntaxError: invalid JSON'')
                  | Some kvs \<Rightarrow> Inr (foldl (\<lambda>acc kv. obj_set (fst kv) (snd kv) acc) [] kvs))))"

text \<open>The codec of the JavaScript runtime, on these objects; \<open>stringify\<close> does not throw on them.\<close>

definition JSON :: "jsvalue obj json" where
  "JSON = \<lparr>JSON_stringify = (\<lambda>ob. Inr (jsonText ob)), JSON_parse = jsonParse\<rparr>"

lemmas json_simps =
  JSON_def jsonText_def jsonParse_def quoted_def hexDigit_def hexValue_def whitespace_def
  punctuation_def emit_def digitValue_def naturalValue_def wordValue_def decimal.simps

section \<open>Example data\<close>

text \<open>
  A user with a password and one without (signed in through a provider), a hasher
  that accepts exactly the password a hash was made from, a store holding both users,
  and a JSON codec for the cached users that writes a user as its id and reads an id
  back as the example user that has it.
\<close>

definition alice :: user where
  "alice =
    \<lparr>u_id = Some ''u1'', email = Some ''alice@example.com'', password = Some ''hash:secret'',
     username = Some ''alice'', role = Some ''user'', lastAuthMethod = None,
     isRegistered = Some True, failedAttempts = None, lockoutUntil = None\<rparr>"

definition exampleHash :: "string \<Rightarrow> error + string" where
  "exampleHash p = Inr (''hash:'' @ p)"

definition exampleVerify :: "string \<Rightarrow> string \<Rightarrow> error + bool" where
  "exampleVerify h p = Inr (h = ''hash:'' @ p)"

definition bob :: user where
  "bob =
    \<lparr>u_id = Some ''u2'', email = Some ''bob@example.com'', password = None,
     username = Some ''bob'', role = Some ''editor'', lastAuthMethod = Some ''google'',
     isRegistered = Some True, failedAttempts = None, lockoutUntil = None\<rparr>"

definition exampleStore :: memdb where
  "exampleStore = \<lparr>users = [alice, bob], sessions = []\<rparr>"

text \<open>
  The state after five consecutive logins with a wrong password, at the instants
  1000 to 5000, the hasher having been invoked on none before.
\<close>

definition fiveFailures :: "memdb \<times> (string \<times> string) list" where
  "fiveFailures =
    snd (login (mem_adapter 0 []) exampleVerify 5000 ''alice@example.com'' ''guess5''
   (snd (login (mem_adapter 0 []) exampleVerify 4000 ''alice@example.com'' ''guess4''
   (snd (login (mem_adapter 0 []) exampleVerify 3000 ''alice@example.com'' ''guess3''
   (snd (login (mem_adapter 0 []) exampleVerify 2000 ''alice@example.com'' ''guess2''
   (snd (login (mem_adapter 0 []) exampleVerify 1000 ''alice@example.com'' ''guess1''
      (exampleStore, []))))))))))"

text \<open>
  A store in which the first user has four failed attempts and a lockout that elapsed
  at the instant 500.
\<close>

definition lateStore :: memdb where
  "lateStore =
    \<lparr>users = [alice\<lparr>failedAttempts := Some 4, lockoutUntil := Some 500\<rparr>, bob], sessions = []\<rparr>"

text \<open>What a caller hands to \<open>createUser\<close>, with a failure count and a lockout of its own.\<close>

definition carolData :: user where
  "carolData =
    \<lparr>u_id = None, email = Some ''carol@example.com'', password = Some ''pass'',
     username = Some ''carol'', role = Some ''user'', lastAuthMethod = None,
     isRegistered = Some False, failedAttempts = Some 7, lockoutUntil = Some 99\<rparr>"

definition exampleJson :: "user json" where
  "exampleJson =
    \<lparr>JSON_stringify = (\<lambda>u. case u_id u of None \<Rightarrow> Inl (Error ''no id'') | Some i \<Rightarrow> Inr i),
     JSON_parse = (\<lambda>txt. case find (\<lambda>u. u_id u = Some txt) [alice, bob] of
                           None \<Rightarrow> Inl (Error ''Unexpected token'')
                         | Some u \<Rightarrow> Inr u)\<rparr>"

text \<open>
  A store with one session of the first user, expiring at the instant 1000; a cache
  that is connected and empty; the cache as a validation of that session at the
  instant 500 leaves it; and an adapter whose \<^verbatim>\<open>destroySession\<close> always rejects.
\<close>

definition sessionStore :: memdb where
  "sessionStore =
    \<lparr>users = [alice, bob],
     sessions = [\<lparr>session_id = ''s1'', user_id = ''u1'', device_id = ''laptop'', expires = 1000\<rparr>]\<rparr>"

definition emptyCache :: "redis_client option" where
  "emptyCache = Some \<lparr>entries = [], connected = True\<rparr>"

definition warmCache :: "redis_client option" where
  "warmCache =
    snd (snd (validateSession (mem_adapter 500 []) exampleJson True 500 ''s1'' (sessionStore, emptyCache)))"

definition failingAdapter :: "memdb authDBInterface" where
  "failingAdapter =
    (mem_adapter 0 [])\<lparr>db_destroySession := (\<lambda>sid d. (Inl (Error ''connection lost''), d))\<rparr>"

text \<open>
  The first user as the JavaScript object the cache is handed: with no lockout, and
  after the five failures, when \<open>lockoutUntil\<close> is the \<^verbatim>\<open>Date\<close> 1805000 milliseconds
  after the epoch; and the object with that date as a string.
\<close>

definition aliceObject :: "jsvalue obj" where
  "aliceObject =
    [(''_id'', JString ''u1''), (''email'', JString ''alice@example.com''),
     (''password'', JString ''hash:secret''), (''username'', JString ''alice''),
     (''role'', JString ''user''), (''isRegistered'', JBoolean True),
     (''failedAttempts'', JNumber 0), (''lockoutUntil'', JNull)]"

definition lockedObject :: "jsvalue obj" where
  "lockedObject =
    [(''_id'', JString ''u1''), (''email'', JString ''alice@example.com''),
     (''password'', JString ''hash:secret''), (''username'', JString ''alice''),
     (''role'', JString ''user''), (''isRegistered'', JBoolean True),
     (''failedAttempts'', JNumber 5), (''lockoutUntil'', JDate ''1970-01-01T00:30:05.000Z'')]"

definition lockedObjectRead :: "jsvalue obj" where
  "lockedObjectRead =
    [(''_id'', JString ''u1''), (''email'', JString ''alice@example.com''),
     (''password'', JString ''hash:secret''), (''username'', JString ''alice''),
     (''role'', JString ''user''), (''isRegistered'', JBoolean True),
     (''failedAttempts'', JNumber 5), (''lockoutUntil'', JString ''1970-01-01T00:30:05.000Z'')]"

text \<open>
  A collection that already has a role \<open>Admin\<close>, capitalised, and a role \<open>editor\<close>
  with a description and a permission of its own.
\<close>

definition mixedRoles :: "role_doc list" where
  "mixedRoles =
    [\<lparr>r_name = Some ''Admin'', r_description = None, r_permissions = []\<rparr>,
     \<lparr>r_name = Some ''editor'', r_description = Some ''Desk editor'', r_permissions = [''p1'']\<rparr>]"

section \<open>Lockout and login outcomes\<close>

lemma fiveFailures_eq:
  "fiveFailures =
    (\<lparr>users = [alice\<lparr>failedAttempts := Some 5, lockoutUntil := Some 1805000\<rparr>, bob], sessions = []\<rparr>,
     [(''hash:secret'', ''guess1''), (''hash:secret'', ''guess2''), (''hash:secret'', ''guess3''),
      (''hash:secret'', ''guess4''), (''hash:secret'', ''guess5'')])"
  by (simp add: fiveFailures_def login_def mem_adapter_simps exampleStore_def alice_def bob_def
      exampleVerify_def)

text \<open>
  C1. Whenever the store finds, for the email, a user that has a password hash and
  whose \<open>lockoutUntil\<close> is later than now, \<open>login\<close> rejects with the lockout error
  whatever the password is, without invoking \<open>verify\<close> (the list of its invocations
  is unchanged, for every \<open>verify\<close>) and without writing to the store. \<open>login\<close>
  itself sets a lockout only on a user whose password hash it has just verified.
\<close>

theorem login_locked_out:
  assumes "db_getUserByEmail A em d = (Inr (Some u), d1)"
    and "password u = Some h" and "h \<noteq> []"
    and "lockoutUntil u = Some t" and "now < t"
  shows "login A verify now em pw (d, calls) =
    (Inl (Error ''Account is temporarily locked. Please try again later.''), (d1, calls))"
  using assms by (simp add: login_def)

text \<open>
  After five consecutive failures, the fifth of which set the lockout to
  5000 + 30 minutes, a sixth attempt with the right password is rejected with the
  lockout error and the hasher has still been invoked five times.
\<close>

theorem login_locked_out_witness:
  "login (mem_adapter 0 []) exampleVerify 6000 ''alice@example.com'' ''secret'' fiveFailures =
     (Inl (Error ''Account is temporarily locked. Please try again later.''), fiveFailures)
   \<and> length (snd fiveFailures) = 5"
proof -
  let ?u = "alice\<lparr>failedAttempts := Some 5, lockoutUntil := Some 1805000\<rparr>"
  let ?d = "\<lparr>users = [?u, bob], sessions = []\<rparr>"
  have found: "db_getUserByEmail (mem_adapter 0 []) ''alice@example.com'' ?d = (Inr (Some ?u), ?d)"
    by (simp add: mem_adapter_simps alice_def)
  have pw: "password ?u = Some ''hash:secret''" and ne: "''hash:secret'' \<noteq> []"
    and lock: "lockoutUntil ?u = Some 1805000" and fut: "(6000::int) < 1805000"
    by (simp_all add: alice_def)
  show ?thesis
    unfolding fiveFailures_eq
    using login_locked_out [OF found pw ne lock fut] by simp
qed

text \<open>
  C3, as the code has it. \<open>login\<close> resolves to \<^verbatim>\<open>null\<close>, with no error, when the email
  is unknown or the user has no password. A wrong password for a user that is not
  locked out rejects with the message \<^verbatim>\<open>Invalid credentials. Please try again.\<close> while
  the failure count stays below 5; the failure that brings the count to 5 or more
  rejects with the message of a lockout for too many failed attempts, and an attempt
  during a lockout with the message of a temporary lockout. (The updates of the store
  are taken to succeed.)
\<close>

theorem login_failure_outcomes:
  "(db_getUserByEmail A em d = (Inr None, d1) \<longrightarrow>
      login A verify now em pw (d, calls) = (Inr None, (d1, calls)))
 \<and> (db_getUserByEmail A em d = (Inr (Some u), d1) \<and> \<not> truthy (password u) \<longrightarrow>
      login A verify now em pw (d, calls) = (Inr None, (d1, calls)))
 \<and> (db_getUserByEmail A em d = (Inr (Some u), d1) \<and> password u = Some h \<and> h \<noteq> [] \<and>
    (\<forall>t. lockoutUntil u = Some t \<longrightarrow> t \<le> now) \<and> verify h pw = Inr False \<and>
    (case failedAttempts u of None \<Rightarrow> 0 | Some n \<Rightarrow> n) + 1 < 5 \<and>
    db_updateUserAttributes A (u_id u)
       \<lparr>set_failedAttempts = Some ((case failedAttempts u of None \<Rightarrow> 0 | Some n \<Rightarrow> n) + 1),
        set_lockoutUntil = None\<rparr> d1 = (Inr (), d2) \<longrightarrow>
      login A verify now em pw (d, calls) =
        (Inl (Error ''Invalid credentials. Please try again.''), (d2, calls @ [(h, pw)])))
 \<and> (db_getUserByEmail A em d = (Inr (Some u), d1) \<and> password u = Some h \<and> h \<noteq> [] \<and>
    (\<forall>t. lockoutUntil u = Some t \<longrightarrow> t \<le> now) \<and> verify h pw = Inr False \<and>
    5 \<le> (case failedAttempts u of None \<Rightarrow> 0 | Some n \<Rightarrow> n) + 1 \<and>
    db_updateUserAttributes A (u_id u)
       \<lparr>set_failedAttempts = Some ((case failedAttempts u of None \<Rightarrow> 0 | Some n \<Rightarrow> n) + 1),
        set_lockoutUntil = Some (Some (now + 30 * 60 * 1000))\<rparr> d1 = (Inr (), d2) \<longrightarrow>
      login A verify now em pw (d, calls) =
        (Inl (Error ''Account is temporarily locked due to too many failed attempts. Please try again later.''),
         (d2, calls @ [(h, pw)])))
 \<and> (db_getUserByEmail A em d = (Inr (Some u), d1) \<and> password u = Some h \<and> h \<noteq> [] \<and>
    (\<exists>t. lockoutUntil u = Some t \<and> now < t) \<longrightarrow>
      login A verify now em pw (d, calls) =
        (Inl (Error ''Account is temporarily locked. Please try again later.''), (d1, calls)))"
  by (cases "password u"; cases "lockoutUntil u") (auto simp add: login_def Let_def)

theorem login_failure_outcomes_witness:
  "login (mem_adapter 0 []) exampleVerify 1000 ''nobody@example.com'' ''secret'' (exampleStore, []) =
     (Inr None, (exampleStore, []))
 \<and> login (mem_adapter 0 []) exampleVerify 1000 ''bob@example.com'' ''secret'' (exampleStore, []) =
     (Inr None, (exampleStore, []))
 \<and> login (mem_adapter 0 []) exampleVerify 1000 ''alice@example.com'' ''wrong'' (exampleStore, []) =
     (Inl (Error ''Invalid credentials. Please try again.''),
      (\<lparr>users = [alice\<lparr>failedAttempts := Some 1\<rparr>, bob], sessions = []\<rparr>, [(''hash:secret'', ''wrong'')]))
 \<and> login (mem_adapter 0 []) exampleVerify 1000 ''alice@example.com'' ''wrong'' (lateStore, []) =
     (Inl (Error ''Account is temporarily locked due to too many failed attempts. Please try again later.''),
      (\<lparr>users = [alice\<lparr>failedAttempts := Some 5, lockoutUntil := Some 1801000\<rparr>, bob], sessions = []\<rparr>,
       [(''hash:secret'', ''wrong'')]))
 \<and> login (mem_adapter 0 []) exampleVerify 400 ''alice@example.com'' ''secret'' (lateStore, []) =
     (Inl (Error ''Account is temporarily locked. Please try again later.''), (lateStore, []))"
proof -
  let ?A = "mem_adapter 0 []"
  let ?late = "alice\<lparr>failedAttempts := Some 4, lockoutUntil := Some 500\<rparr>"
  have nobody: "db_getUserByEmail ?A ''nobody@example.com'' exampleStore = (Inr None, exampleStore)"
    by (simp add: mem_adapter_simps exampleStore_def alice_def bob_def)
  have bob: "db_getUserByEmail ?A ''bob@example.com'' exampleStore = (Inr (Some bob), exampleStore)
      \<and> \<not> truthy (password bob)"
    by (simp add: mem_adapter_simps exampleStore_def alice_def bob_def)
  have wrong: "db_getUserByEmail ?A ''alice@example.com'' exampleStore = (Inr (Some alice), exampleStore)
      \<and> password alice = Some ''hash:secret'' \<and> ''hash:secret'' \<noteq> []
      \<and> (\<forall>t. lockoutUntil alice = Some t \<longrightarrow> t \<le> 1000)
      \<and> exampleVerify ''hash:secret'' ''wrong'' = Inr False
      \<and> (case failedAttempts alice of None \<Rightarrow> 0 | Some n \<Rightarrow> n) + 1 < (5::int)
      \<and> db_updateUserAttributes ?A (u_id alice)
           \<lparr>set_failedAttempts = Some ((case failedAttempts alice of None \<Rightarrow> 0 | Some n \<Rightarrow> n) + 1),
            set_lockoutUntil = None\<rparr> exampleStore
          = (Inr (), \<lparr>users = [alice\<lparr>failedAttempts := Some 1\<rparr>, bob], sessions = []\<rparr>)"
    by (simp add: mem_adapter_simps exampleStore_def alice_def bob_def exampleVerify_def)
  have fifth: "db_getUserByEmail ?A ''alice@example.com'' lateStore = (Inr (Some ?late), lateStore)
      \<and> password ?late = Some ''hash:secret'' \<and> ''hash:secret'' \<noteq> []
      \<and> (\<forall>t. lockoutUntil ?late = Some t \<longrightarrow> t \<le> 1000)
      \<and> exampleVerify ''hash:secret'' ''wrong'' = Inr False
      \<and> (5::int) \<le> (case failedAttempts ?late of None \<Rightarrow> 0 | Some n \<Rightarrow> n) + 1
      \<and> db_updateUserAttributes ?A (u_id ?late)
           \<lparr>set_failedAttempts = Some ((case failedAttempts ?late of None \<Rightarrow> 0 | Some n \<Rightarrow> n) + 1),
            set_lockoutUntil = Some (Some (1000 + 30 * 60 * 1000))\<rparr> lateStore
          = (Inr (), \<lparr>users = [alice\<lparr>failedAttempts := Some 5, lockoutUntil := Some 1801000\<rparr>, bob],
                      sessions = []\<rparr>)"
    by (simp add: mem_adapter_simps lateStore_def alice_def bob_def exampleVerify_def)
  have locked: "db_getUserByEmail ?A ''alice@example.com'' lateStore = (Inr (Some ?late), lateStore)
      \<and> password ?late = Some ''hash:secret'' \<and> ''hash:secret'' \<noteq> []
      \<and> (\<exists>t. lockoutUntil ?late = Some t \<and> 400 < t)"
    by (simp add: mem_adapter_simps lateStore_def alice_def bob_def)
  show ?thesis
    using login_failure_outcomes [THEN conjunct1, THEN mp, OF nobody]
      login_failure_outcomes [THEN conjunct2, THEN conjunct1, THEN mp, OF bob]
      login_failure_outcomes [where A = "?A" and verify = exampleVerify and h = "''hash:secret''"
        and pw = "''wrong''" and u = alice and now = 1000 and calls = "[]",
        THEN conjunct2, THEN conjunct2, THEN conjunct1, THEN mp, OF wrong]
      login_failure_outcomes [where A = "?A" and verify = exampleVerify and h = "''hash:secret''"
        and pw = "''wrong''" and u = "?late" and now = 1000 and calls = "[]",
        THEN conjunct2, THEN conjunct2, THEN conjunct2, THEN conjunct1, THEN mp, OF fifth]
      login_failure_outcomes [where A = "?A" and h = "''hash:secret''" and u = "?late" and now = 400,
        THEN conjunct2, THEN conjunct2, THEN conjunct2, THEN conjunct2, THEN mp, OF locked]
    by simp
qed

text \<open>
  An unknown email and a wrong password are not reported alike: the first resolves
  to \<^verbatim>\<open>null\<close>, the second rejects with an error.
\<close>

theorem login_generic_failure_counterexample:
  "fst (login (mem_adapter 0 []) exampleVerify 1000 ''nobody@example.com'' ''wrong'' (exampleStore, []))
     = Inr None
 \<and> fst (login (mem_adapter 0 []) exampleVerify 1000 ''alice@example.com'' ''wrong'' (exampleStore, []))
     = Inl (Error ''Invalid credentials. Please try again.'')"
  by (simp add: login_def mem_adapter_simps exampleStore_def alice_def bob_def exampleVerify_def)

text \<open>
  On the in-memory adapter the update a successful login makes is what the next
  lookup by that email returns: the user with \<open>failedAttempts = 0\<close> and no
  \<open>lockoutUntil\<close>.
\<close>

lemma find_map_same:
  "find P xs = Some u \<Longrightarrow> (\<And>x. P (f x) = P x) \<Longrightarrow> find P (map f xs) = Some (f u)"
  by (induction xs) (auto split: if_splits)

lemma mem_reset_stored:
  assumes "db_getUserByEmail (mem_adapter now fresh) em d = (Inr (Some u), d1)"
    and "u_id u \<noteq> None"
    and "db_updateUserAttributes (mem_adapter now fresh) (u_id u)
           \<lparr>set_failedAttempts = Some 0, set_lockoutUntil = Some None\<rparr> d1 = (Inr (), d2)"
  shows "db_getUserByEmail (mem_adapter now fresh) em d2 =
           (Inr (Some (u\<lparr>failedAttempts := Some 0, lockoutUntil := None\<rparr>)), d2)"
proof -
  let ?f = "\<lambda>x. if u_id u \<noteq> None \<and> u_id x = u_id u
                 then apply_attrs \<lparr>set_failedAttempts = Some 0, set_lockoutUntil = Some None\<rparr> x else x"
  from assms(1) have f: "find (\<lambda>u. email u = Some em) (users d) = Some u" and d1: "d1 = d"
    by (auto simp add: mem_adapter_simps)
  from assms(3) d1 have d2: "users d2 = map ?f (users d)"
    by (auto simp add: mem_adapter_def mem_updateUserAttributes_def)
  have "find (\<lambda>u. email u = Some em) (map ?f (users d)) = Some (?f u)"
    by (rule find_map_same [OF f]) (simp add: apply_attrs_def)
  with assms(2) d2 show ?thesis
    by (simp add: mem_adapter_def mem_getUserByEmail_def apply_attrs_def)
qed

text \<open>
  C4. Whatever the failure count of the user is, and whether its lockout is unset or
  has elapsed, a login with a password that \<open>verify\<close> accepts returns the user
  and leaves the store that \<^verbatim>\<open>updateUserAttributes\<close> produces from
  \<^verbatim>\<open>{ failedAttempts: 0, lockoutUntil: null }\<close> on the id of that user (the update
  succeeding). Conversely, every login that returns a user found that user by the
  email and leaves the store that this update produced, without error.
\<close>

theorem login_success_resets:
  "(db_getUserByEmail A em d = (Inr (Some u), d1) \<and> password u = Some h \<and> h \<noteq> [] \<and>
    (\<forall>t. lockoutUntil u = Some t \<longrightarrow> t \<le> now) \<and> verify h pw = Inr True \<and>
    db_updateUserAttributes A (u_id u)
       \<lparr>set_failedAttempts = Some 0, set_lockoutUntil = Some None\<rparr> d1 = (Inr (), d2) \<longrightarrow>
      login A verify now em pw (d, calls) = (Inr (Some u), (d2, calls @ [(h, pw)])))
 \<and> (login A verify now em pw (d, calls) = (Inr (Some u'), (d', calls')) \<longrightarrow>
      (\<exists>d1. db_getUserByEmail A em d = (Inr (Some u'), d1) \<and>
         db_updateUserAttributes A (u_id u')
            \<lparr>set_failedAttempts = Some 0, set_lockoutUntil = Some None\<rparr> d1 = (Inr (), d')))"
proof (intro conjI impI)
  assume "db_getUserByEmail A em d = (Inr (Some u), d1) \<and> password u = Some h \<and> h \<noteq> [] \<and>
    (\<forall>t. lockoutUntil u = Some t \<longrightarrow> t \<le> now) \<and> verify h pw = Inr True \<and>
    db_updateUserAttributes A (u_id u)
       \<lparr>set_failedAttempts = Some 0, set_lockoutUntil = Some None\<rparr> d1 = (Inr (), d2)"
  then show "login A verify now em pw (d, calls) = (Inr (Some u), (d2, calls @ [(h, pw)]))"
    by (cases "lockoutUntil u") (auto simp add: login_def)
next
  assume "login A verify now em pw (d, calls) = (Inr (Some u'), (d', calls'))"
  then show "\<exists>d1. db_getUserByEmail A em d = (Inr (Some u'), d1) \<and>
       db_updateUserAttributes A (u_id u')
          \<lparr>set_failedAttempts = Some 0, set_lockoutUntil = Some None\<rparr> d1 = (Inr (), d')"
    by (auto simp add: login_def Let_def
        split: prod.splits sum.splits option.splits if_splits bool.splits)
qed

text \<open>
  With four failed attempts and a lockout that elapsed at 500, the right password
  logs in at 1000, and the stored user then has \<open>failedAttempts = 0\<close> and no
  \<open>lockoutUntil\<close>.
\<close>

theorem login_success_resets_witness:
  "login (mem_adapter 0 []) exampleVerify 1000 ''alice@example.com'' ''secret'' (lateStore, []) =
     (Inr (Some (alice\<lparr>failedAttempts := Some 4, lockoutUntil := Some 500\<rparr>)),
      (\<lparr>users = [alice\<lparr>failedAttempts := Some 0, lockoutUntil := None\<rparr>, bob], sessions = []\<rparr>,
       [(''hash:secret'', ''secret'')]))
  \<and> (\<exists>d1. db_updateUserAttributes (mem_adapter 0 []) (Some ''u1'')
        \<lparr>set_failedAttempts = Some 0, set_lockoutUntil = Some None\<rparr> d1 =
       (Inr (), \<lparr>users = [alice\<lparr>failedAttempts := Some 0, lockoutUntil := None\<rparr>, bob], sessions = []\<rparr>))"
proof -
  let ?A = "mem_adapter 0 []"
  let ?late = "alice\<lparr>failedAttempts := Some 4, lockoutUntil := Some 500\<rparr>"
  let ?reset = "\<lparr>users = [alice\<lparr>failedAttempts := Some 0, lockoutUntil := None\<rparr>, bob], sessions = []\<rparr>"
  have h: "db_getUserByEmail ?A ''alice@example.com'' lateStore = (Inr (Some ?late), lateStore)
      \<and> password ?late = Some ''hash:secret'' \<and> ''hash:secret'' \<noteq> []
      \<and> (\<forall>t. lockoutUntil ?late = Some t \<longrightarrow> t \<le> 1000)
      \<and> exampleVerify ''hash:secret'' ''secret'' = Inr True
      \<and> db_updateUserAttributes ?A (u_id ?late)
           \<lparr>set_failedAttempts = Some 0, set_lockoutUntil = Some None\<rparr> lateStore = (Inr (), ?reset)"
    by (simp add: mem_adapter_simps lateStore_def alice_def bob_def exampleVerify_def)
  from login_success_resets [where A = "?A" and verify = exampleVerify and h = "''hash:secret''"
      and pw = "''secret''" and u = "?late" and now = 1000 and calls = "[]",
      THEN conjunct1, THEN mp, OF h]
  have L: "login ?A exampleVerify 1000 ''alice@example.com'' ''secret'' (lateStore, []) =
      (Inr (Some ?late), (?reset, [(''hash:secret'', ''secret'')]))"
    by simp
  from login_success_resets [THEN conjunct2, THEN mp, OF L] have
    "\<exists>d1. db_updateUserAttributes ?A (Some ''u1'')
        \<lparr>set_failedAttempts = Some 0, set_lockoutUntil = Some None\<rparr> d1 = (Inr (), ?reset)"
    by (auto simp add: alice_def)
  with L show ?thesis by blast
qed

section \<open>User creation\<close>

text \<open>
  C10. \<open>createUser\<close> ignores the \<open>failedAttempts\<close> of the attributes it is given, and
  every user it returns is the one the port created from attributes whose
  \<open>failedAttempts\<close> is 0.
\<close>

theorem createUser_failedAttempts_zero:
  "createUser A hash (userData\<lparr>failedAttempts := x\<rparr>) d = createUser A hash userData d \<and>
   (createUser A hash userData d = (Inr u, d') \<longrightarrow>
     (\<exists>hp. db_createUser A
         \<lparr>u_id = None, email = email userData, password = hp, username = username userData,
          role = role userData, lastAuthMethod = lastAuthMethod userData,
          isRegistered = isRegistered userData, failedAttempts = Some 0, lockoutUntil = None\<rparr> d
        = (Inr (Some u), d')))"
  by (auto simp add: createUser_def split: prod.splits sum.splits option.splits if_splits)

text \<open>
  A caller that supplies \<open>failedAttempts = 7\<close>: the user stored has the count 0.
\<close>

theorem createUser_failedAttempts_zero_witness:
  "createUser (mem_adapter 0 ''u3'') exampleHash carolData exampleStore =
     (Inr (carolData\<lparr>u_id := Some ''u3'', password := Some ''hash:pass'',
                      failedAttempts := Some 0, lockoutUntil := None\<rparr>),
      \<lparr>users = [alice, bob, carolData\<lparr>u_id := Some ''u3'', password := Some ''hash:pass'',
                      failedAttempts := Some 0, lockoutUntil := None\<rparr>], sessions = []\<rparr>)
   \<and> (\<exists>hp. db_createUser (mem_adapter 0 ''u3'')
         \<lparr>u_id = None, email = email carolData, password = hp, username = username carolData,
          role = role carolData, lastAuthMethod = lastAuthMethod carolData,
          isRegistered = isRegistered carolData, failedAttempts = Some 0, lockoutUntil = None\<rparr>
         exampleStore
        = (Inr (Some (carolData\<lparr>u_id := Some ''u3'', password := Some ''hash:pass'',
                      failedAttempts := Some 0, lockoutUntil := None\<rparr>)),
           \<lparr>users = [alice, bob, carolData\<lparr>u_id := Some ''u3'', password := Some ''hash:pass'',
                      failedAttempts := Some 0, lockoutUntil := None\<rparr>], sessions = []\<rparr>))"
proof -
  have C: "createUser (mem_adapter 0 ''u3'') exampleHash carolData exampleStore =
     (Inr (carolData\<lparr>u_id := Some ''u3'', password := Some ''hash:pass'',
                      failedAttempts := Some 0, lockoutUntil := None\<rparr>),
      \<lparr>users = [alice, bob, carolData\<lparr>u_id := Some ''u3'', password := Some ''hash:pass'',
                      failedAttempts := Some 0, lockoutUntil := None\<rparr>], sessions = []\<rparr>)"
    by (simp add: createUser_def mem_adapter_simps Let_def exampleStore_def carolData_def
        exampleHash_def)
  from createUser_failedAttempts_zero [THEN conjunct2, THEN mp, OF C] C
  show ?thesis by blast
qed

section \<open>The session cache\<close>

lemma map_of_filter_key: "map_of (filter (\<lambda>e. fst e \<noteq> k) xs) k = None"
  by (induction xs) auto

lemma warmCache_eq:
  "warmCache = Some \<lparr>entries = [(''session:s1'', ''u1'', 3600500)], connected = True\<rparr>"
  by (simp add: warmCache_def validateSession_def cache_simps mem_adapter_simps sessionStore_def
      emptyCache_def exampleJson_def alice_def bob_def)

text \<open>
  The runtime's codec reads the first user's object back as it was written, and the
  locked user's object with the date as a string. The text written is never empty.
\<close>

lemma aliceObject_roundtrip: "jsonParse (jsonText aliceObject) = Inr aliceObject"
  by (simp add: json_simps aliceObject_def)

lemma lockedObject_read: "jsonParse (jsonText lockedObject) = Inr lockedObjectRead"
  by (simp add: json_simps lockedObject_def lockedObjectRead_def)

lemma jsonText_not_empty: "jsonText ob \<noteq> []"
  by (simp add: jsonText_def)

text \<open>
  C8, as the code has it. With a client that is connected, \<open>setCachedSession\<close> with
  the default expiry followed by \<open>getCachedSession\<close> on the same id, before the 3600
  seconds are over, returns what \<^verbatim>\<open>JSON.parse\<close> reads from the text \<^verbatim>\<open>JSON.stringify\<close>
  wrote for the user (\<^verbatim>\<open>null\<close> if that text does not parse), and neither errs: a user
  equal to the one stored exactly when the user survives that round trip. With Redis
  disabled in the configuration (the client is \<^verbatim>\<open>null\<close>), \<open>getCachedSession\<close> returns
  \<^verbatim>\<open>null\<close> and \<open>setCachedSession\<close> resolves without changing anything.
\<close>

theorem cachedSession_roundtrip:
  "(connected c \<and> JSON_stringify J u = Inr txt \<and> txt \<noteq> [] \<and> now' < now + 3600 * 1000 \<longrightarrow>
      fst (setCachedSession J (Some c) now sid u None) = Inr () \<and>
      getCachedSession J (snd (setCachedSession J (Some c) now sid u None)) now' sid =
        (case JSON_parse J txt of Inl e \<Rightarrow> Inr None | Inr x \<Rightarrow> Inr (Some x)) \<and>
      (getCachedSession J (snd (setCachedSession J (Some c) now sid u None)) now' sid = Inr (Some u))
        = (JSON_parse J txt = Inr u))
 \<and> getCachedSession J (initializeRedis False connection None) now sid = Inr None
 \<and> setCachedSession J (initializeRedis False connection None) now sid u ex =
      (Inr (), initializeRedis False connection None)"
  by (auto simp add: cache_simps initializeRedis_def split: sum.splits)

text \<open>
  A user object whose values are strings, a boolean, a number and \<^verbatim>\<open>null\<close> comes back
  equal to the one stored.
\<close>

theorem cachedSession_roundtrip_witness:
  "fst (setCachedSession JSON emptyCache 500 ''s1'' aliceObject None) = Inr ()
 \<and> getCachedSession JSON (snd (setCachedSession JSON emptyCache 500 ''s1'' aliceObject None))
      2000 ''s1'' = Inr (Some aliceObject)"
proof -
  let ?c = "\<lparr>entries = [], connected = True\<rparr>"
  have h: "connected ?c \<and> JSON_stringify JSON aliceObject = Inr (jsonText aliceObject) \<and>
     jsonText aliceObject \<noteq> [] \<and> (2000::int) < 500 + 3600 * 1000"
    by (simp add: JSON_def jsonText_not_empty)
  have p: "JSON_parse JSON (jsonText aliceObject) = Inr aliceObject"
    by (simp add: JSON_def aliceObject_roundtrip)
  from cachedSession_roundtrip [THEN conjunct1, THEN mp, OF h, of "''s1''"] p
  show ?thesis by (simp add: emptyCache_def)
qed

text \<open>
  A user object with a \<^verbatim>\<open>Date\<close> does not come back equal: \<open>lockoutUntil\<close>, which
  \<open>login\<close> writes as a \<^verbatim>\<open>Date\<close>, is read from the cache as a string.
\<close>

theorem cachedSession_roundtrip_counterexample:
  "getCachedSession JSON (snd (setCachedSession JSON emptyCache 5000 ''s1'' lockedObject None))
      6000 ''s1'' = Inr (Some lockedObjectRead)
 \<and> map_of lockedObject ''lockoutUntil'' = Some (JDate ''1970-01-01T00:30:05.000Z'')
 \<and> map_of lockedObjectRead ''lockoutUntil'' = Some (JString ''1970-01-01T00:30:05.000Z'')
 \<and> lockedObjectRead \<noteq> lockedObject"
  by (simp add: cache_simps emptyCache_def JSON_def jsonText_not_empty lockedObject_read)
    (simp add: lockedObject_def lockedObjectRead_def)


section \<open>Session validation and destruction\<close>

text \<open>
  The in-memory adapter answers \<^verbatim>\<open>null\<close> for an id that no session has or whose
  sessions have all expired.
\<close>

lemma mem_validateSession_none:
  "\<forall>s \<in> set (sessions d). session_id s = sid \<longrightarrow> expires s \<le> now \<Longrightarrow>
   db_validateSession (mem_adapter now fresh) sid d = (Inr None, d)"
proof -
  assume "\<forall>s \<in> set (sessions d). session_id s = sid \<longrightarrow> expires s \<le> now"
  then have "find (\<lambda>s. session_id s = sid \<and> now < expires s) (sessions d) = None"
    by (auto simp add: find_None_iff)
  then show ?thesis by (simp add: mem_adapter_simps)
qed

text \<open>
  C5, as the code has it. For a session id that is not empty, when the cache is not
  consulted or has no live entry for it and the port resolves to \<^verbatim>\<open>null\<close> (its answer
  for a session that does not exist or has expired), \<open>validateSession\<close> returns
  \<^verbatim>\<open>null\<close> and does not throw; the cache is left as it was.
\<close>

theorem validateSession_null:
  assumes "sid \<noteq> []"
    and "USE_REDIS \<longrightarrow> getCachedSession J rc now sid = Inr None"
    and "db_validateSession A sid d = (Inr None, d1)"
  shows "validateSession A J USE_REDIS now sid (d, rc) = (Inr None, (d1, rc))"
  using assms by (simp add: validateSession_def)

text \<open>An expired session and an id no session has, at the instant 2000, cache empty.\<close>

theorem validateSession_null_witness:
  "validateSession (mem_adapter 2000 []) exampleJson True 2000 ''s1'' (sessionStore, emptyCache) =
     (Inr None, (sessionStore, emptyCache))
 \<and> validateSession (mem_adapter 2000 []) exampleJson True 2000 ''s9'' (sessionStore, emptyCache) =
     (Inr None, (sessionStore, emptyCache))"
proof -
  have miss: "True \<longrightarrow> getCachedSession exampleJson emptyCache 2000 sid = Inr None" for sid
    by (simp add: cache_simps emptyCache_def)
  have expired: "db_validateSession (mem_adapter 2000 []) ''s1'' sessionStore = (Inr None, sessionStore)"
    by (simp add: mem_adapter_simps sessionStore_def)
  have absent: "db_validateSession (mem_adapter 2000 []) ''s9'' sessionStore = (Inr None, sessionStore)"
    by (simp add: mem_adapter_simps sessionStore_def)
  have ne: "''s1'' \<noteq> []" "''s9'' \<noteq> []" by simp_all
  from validateSession_null [OF ne(1) miss expired] validateSession_null [OF ne(2) miss absent]
  show ?thesis by simp
qed

text \<open>
  Two cases where the result is not \<^verbatim>\<open>null\<close>. The session \<open>s1\<close> expired at 1000
  and the port answers
  \<^verbatim>\<open>null\<close> for it at 2000, but it was validated at 500 and the cache entry written
  then lives for an hour: \<open>validateSession\<close> returns the user from the cache. And the
  empty session id, which no session has, makes it throw.
\<close>

theorem validateSession_counterexample:
  "db_validateSession (mem_adapter 2000 []) ''s1'' sessionStore = (Inr None, sessionStore)
 \<and> validateSession (mem_adapter 2000 []) exampleJson True 2000 ''s1'' (sessionStore, warmCache) =
     (Inr (Some alice), (sessionStore, warmCache))
 \<and> validateSession (mem_adapter 2000 []) exampleJson True 2000 [] (sessionStore, emptyCache) =
     (Inl (Error ''Failed to validate session: Session ID is undefined''), (sessionStore, emptyCache))"
  by (simp add: warmCache_eq validateSession_def cache_simps mem_adapter_simps sessionStore_def
      exampleJson_def emptyCache_def alice_def bob_def)

text \<open>
  C6, as the code has it. \<open>destroySession\<close> deletes through the port first. When that
  rejects, the call rejects with the wrapped message and the cache is not touched.
  When it succeeds the call succeeds, whatever state the cache client is in: the
  eviction runs when \<open>USE_REDIS\<close> is set, it never errs, and with a connected client
  the entry of the session is gone afterwards.
\<close>

theorem destroySession_outcomes:
  "(db_destroySession A sid d = (Inl e, d1) \<longrightarrow>
      destroySession A USE_REDIS sid (d, rc) =
        (Inl (Error (''Failed to destroy session: '' @ message e)), (d1, rc)))
 \<and> (db_destroySession A sid d = (Inr (), d1) \<longrightarrow>
      destroySession A USE_REDIS sid (d, rc) =
        (Inr (), (d1, if USE_REDIS then snd (clearCachedSession rc sid) else rc)))
 \<and> (db_destroySession A sid d = (Inr (), d1) \<and> USE_REDIS \<and> rc = Some c \<and> connected c \<longrightarrow>
      getCachedSession J (snd (snd (destroySession A USE_REDIS sid (d, rc)))) now sid = Inr None)
 \<and> fst (clearCachedSession rc sid) = Inr ()"
  by (auto simp add: destroySession_def cache_simps map_of_filter_key
      split: prod.splits sum.splits option.splits)

text \<open>
  A failing port; a working port with a cache whose connection is down (the eviction
  fails inside the cache module and the call still succeeds); a working port with a
  connected cache.
\<close>

theorem destroySession_outcomes_witness:
  "destroySession failingAdapter True ''s1'' (sessionStore, warmCache) =
     (Inl (Error ''Failed to destroy session: connection lost''), (sessionStore, warmCache))
 \<and> destroySession (mem_adapter 0 []) True ''s1''
      (sessionStore, Some \<lparr>entries = [(''session:s1'', ''u1'', 3600500)], connected = False\<rparr>) =
     (Inr (), (exampleStore, Some \<lparr>entries = [(''session:s1'', ''u1'', 3600500)], connected = False\<rparr>))
 \<and> getCachedSession exampleJson
      (snd (snd (destroySession (mem_adapter 0 []) True ''s1''
         (sessionStore, Some \<lparr>entries = [(''session:s1'', ''u1'', 3600500)], connected = True\<rparr>))))
      600 ''s1'' = Inr None"
proof -
  let ?down = "\<lparr>entries = [(''session:s1'', ''u1'', 3600500)], connected = False\<rparr>"
  let ?up = "\<lparr>entries = [(''session:s1'', ''u1'', 3600500)], connected = True\<rparr>"
  have failing: "db_destroySession failingAdapter ''s1'' sessionStore =
      (Inl (Error ''connection lost''), sessionStore)"
    by (simp add: failingAdapter_def)
  have working: "db_destroySession (mem_adapter 0 []) ''s1'' sessionStore = (Inr (), exampleStore)"
    by (simp add: mem_adapter_simps sessionStore_def exampleStore_def)
  have up: "db_destroySession (mem_adapter 0 []) ''s1'' sessionStore = (Inr (), exampleStore)
      \<and> True \<and> Some ?up = Some ?up \<and> connected ?up"
    using working by simp
  have down: "snd (clearCachedSession (Some ?down) ''s1'') = Some ?down"
    by (simp add: cache_simps)
  from destroySession_outcomes [THEN conjunct1, THEN mp, OF failing]
    destroySession_outcomes [THEN conjunct2, THEN conjunct1, THEN mp, OF working,
      of True "Some ?down"]
    destroySession_outcomes [THEN conjunct2, THEN conjunct2, THEN conjunct1, THEN mp, OF up,
      of exampleJson 600]
    down
  show ?thesis by simp
qed

text \<open>
  The eviction is not attempted when the delete fails: the port rejects, the call
  rejects, and the entry of the session is still served by the cache, which an
  eviction would have removed.
\<close>

theorem destroySession_counterexample:
  "destroySession failingAdapter True ''s1'' (sessionStore, warmCache) =
     (Inl (Error ''Failed to destroy session: connection lost''), (sessionStore, warmCache))
 \<and> getCachedSession exampleJson warmCache 600 ''s1'' = Inr (Some alice)
 \<and> getCachedSession exampleJson (snd (clearCachedSession warmCache ''s1'')) 600 ''s1'' = Inr None"
  by (simp add: warmCache_eq destroySession_def failingAdapter_def cache_simps mem_adapter_simps
      exampleJson_def alice_def bob_def)

section \<open>Session creation\<close>

lemma find_distinct_key:
  "distinct (map f xs) \<Longrightarrow> find P xs = Some s \<Longrightarrow> find (\<lambda>x. f x = f s) xs = Some s"
proof (induction xs)
  case Nil
  then show ?case by simp
next
  case (Cons x xs)
  show ?case
  proof (cases "P x")
    case True
    with Cons.prems show ?thesis by simp
  next
    case False
    with Cons.prems have s: "find P xs = Some s" and d: "distinct (map f xs)"
      and n: "f x \<notin> f ` set xs"
      by simp_all
    from s have "s \<in> set xs" by (auto simp: find_Some_iff)
    with n have "f x \<noteq> f s" by auto
    with Cons.IH [OF d s] show ?thesis by simp
  qed
qed

text \<open>
  C2. Over the in-memory adapter, whose session ids are distinct, and for ids that
  are not empty: when the store has a session of the pair that has not expired,
  \<open>createSession\<close> returns that session with \<open>expires\<close> set to now plus the requested
  ttl (one hour by default, doubled when extended) and the store holds the same
  sessions, that one renewed in place; otherwise it returns and appends one new
  session of the pair, expiring at now plus that ttl.
\<close>

theorem createSession_renews_or_creates:
  assumes "uid \<noteq> []" and "did \<noteq> []" and "distinct (map session_id (sessions d))"
  shows "createSession (mem_adapter now fresh) uid did expires_arg isExtended_arg d =
    (let ttl = (case expires_arg of None \<Rightarrow> 60 * 60 * 1000 | Some e \<Rightarrow> e);
         until = now + (if isExtended_arg = Some True then ttl * 2 else ttl)
     in case find (\<lambda>s. user_id s = uid \<and> device_id s = did \<and> now < expires s) (sessions d) of
          Some s \<Rightarrow>
            (Inr (s\<lparr>expires := until\<rparr>),
             d\<lparr>sessions := map (\<lambda>x. if session_id x = session_id s then x\<lparr>expires := until\<rparr> else x)
                               (sessions d)\<rparr>)
        | None \<Rightarrow>
            (Inr \<lparr>session_id = fresh, user_id = uid, device_id = did, expires = until\<rparr>,
             d\<lparr>sessions := sessions d @
                 [\<lparr>session_id = fresh, user_id = uid, device_id = did, expires = until\<rparr>]\<rparr>))"
proof (cases "find (\<lambda>s. user_id s = uid \<and> device_id s = did \<and> now < expires s) (sessions d)")
  case None
  with assms show ?thesis
    by (cases isExtended_arg) (simp_all add: createSession_def mem_adapter_simps Let_def)
next
  case (Some s)
  from find_distinct_key [OF assms(3) Some]
  have "find (\<lambda>x. session_id x = session_id s) (sessions d) = Some s" .
  with Some assms show ?thesis
    by (cases isExtended_arg) (simp_all add: createSession_def mem_adapter_simps Let_def)
qed

text \<open>
  A first session for \<open>(u1, deviceA)\<close> with ttl 3600, extended, at the instant 100
  expires at 7300; a second call for the pair at 200, not extended, renews the same
  session id to 3800, and the store still holds one session.
\<close>

theorem createSession_renews_or_creates_witness:
  "createSession (mem_adapter 100 ''s1'') ''u1'' ''deviceA'' (Some 3600) (Some True) exampleStore =
     (Inr \<lparr>session_id = ''s1'', user_id = ''u1'', device_id = ''deviceA'', expires = 7300\<rparr>,
      exampleStore\<lparr>sessions :=
        [\<lparr>session_id = ''s1'', user_id = ''u1'', device_id = ''deviceA'', expires = 7300\<rparr>]\<rparr>)
 \<and> createSession (mem_adapter 200 ''s2'') ''u1'' ''deviceA'' (Some 3600) (Some False)
      (exampleStore\<lparr>sessions :=
        [\<lparr>session_id = ''s1'', user_id = ''u1'', device_id = ''deviceA'', expires = 7300\<rparr>]\<rparr>) =
     (Inr \<lparr>session_id = ''s1'', user_id = ''u1'', device_id = ''deviceA'', expires = 3800\<rparr>,
      exampleStore\<lparr>sessions :=
        [\<lparr>session_id = ''s1'', user_id = ''u1'', device_id = ''deviceA'', expires = 3800\<rparr>]\<rparr>)"
proof -
  let ?d1 = "exampleStore\<lparr>sessions :=
        [\<lparr>session_id = ''s1'', user_id = ''u1'', device_id = ''deviceA'', expires = 7300\<rparr>]\<rparr>"
  have ne: "''u1'' \<noteq> []" "''deviceA'' \<noteq> []" by simp_all
  have d0: "distinct (map session_id (sessions exampleStore))"
    by (simp add: exampleStore_def)
  have d1: "distinct (map session_id (sessions ?d1))"
    by simp
  from createSession_renews_or_creates [OF ne d0, of 100 "''s1''" "Some 3600" "Some True"]
    createSession_renews_or_creates [OF ne d1, of 200 "''s2''" "Some 3600" "Some False"]
  show ?thesis by (simp add: exampleStore_def)
qed

section \<open>The permission matrix\<close>

lemma defaultPermissions_eq:
  "defaultPermissions =
    [(''admin'', [(''create'', True), (''read'', True), (''write'', True), (''delete'', True)]),
     (''developer'', [(''create'', True), (''read'', True), (''write'', True), (''delete'', True)]),
     (''editor'', [(''create'', True), (''read'', True), (''write'', True), (''delete'', True)]),
     (''user'', [(''create'', True), (''write'', False), (''read'', True), (''delete'', True)])]"
  by (simp add: defaultPermissions_def roles_def adminRole_def flexibleRoles_def permissions_def)

text \<open>The sixteen single flips of the default matrix, each evaluated.\<close>

lemma flips_checked:
  "list_all (\<lambda>r. list_all (\<lambda>p.
      case lookupPermission defaultPermissions r p of
        None \<Rightarrow> False
      | Some v \<Rightarrow>
          sanitizePermissions (flipPermission r p defaultPermissions) = Inr (Some [(r, [(p, \<not> v)])]))
     permissions) roles"
  by code_simp

text \<open>
  C7. \<open>sanitizePermissions\<close> of the default matrix is \<^verbatim>\<open>undefined\<close>, not an empty
  object. Of the default matrix with the value of one permission of one role negated,
  it is the object with that role alone, holding that permission alone with its
  negated value.
\<close>

theorem sanitizePermissions_minimal:
  "sanitizePermissions defaultPermissions = Inr None
 \<and> (\<forall>r \<in> set roles. \<forall>p \<in> set permissions.
      \<exists>v. lookupPermission defaultPermissions r p = Some v \<and>
          sanitizePermissions (flipPermission r p defaultPermissions) = Inr (Some [(r, [(p, \<not> v)])]))"
proof
  show "sanitizePermissions defaultPermissions = Inr None"
    by (simp add: sanitizePermissions_def defaultPermissions_eq obj_delete_def)
next
  show "\<forall>r \<in> set roles. \<forall>p \<in> set permissions.
      \<exists>v. lookupPermission defaultPermissions r p = Some v \<and>
          sanitizePermissions (flipPermission r p defaultPermissions) = Inr (Some [(r, [(p, \<not> v)])])"
  proof (intro ballI)
    fix r p
    assume "r \<in> set roles" and "p \<in> set permissions"
    with flips_checked have
      "case lookupPermission defaultPermissions r p of
        None \<Rightarrow> False
      | Some v \<Rightarrow>
          sanitizePermissions (flipPermission r p defaultPermissions) = Inr (Some [(r, [(p, \<not> v)])])"
      by (simp add: list_all_iff)
    then show "\<exists>v. lookupPermission defaultPermissions r p = Some v \<and>
          sanitizePermissions (flipPermission r p defaultPermissions) = Inr (Some [(r, [(p, \<not> v)])])"
      by (cases "lookupPermission defaultPermissions r p") simp_all
  qed
qed

text \<open>Granting \<open>write\<close> to the role \<open>user\<close>, the one permission the default denies.\<close>

theorem sanitizePermissions_minimal_witness:
  "sanitizePermissions (flipPermission ''user'' ''write'' defaultPermissions) =
     Inr (Some [(''user'', [(''write'', True)])])
 \<and> lookupPermission defaultPermissions ''user'' ''write'' = Some False"
proof -
  have r: "''user'' \<in> set roles" and p: "''write'' \<in> set permissions"
    by (simp_all add: roles_def adminRole_def flexibleRoles_def permissions_def)
  have l: "lookupPermission defaultPermissions ''user'' ''write'' = Some False"
    by (simp add: lookupPermission_def defaultPermissions_eq)
  from sanitizePermissions_minimal [THEN conjunct2, rule_format, OF r p] l
  show ?thesis by auto
qed

section \<open>Seeding the default roles\<close>

text \<open>
  When every name to seed is already in the collection the loop changes nothing; in
  general it succeeds and appends documents for names that were missing, after which
  every name is present.
\<close>

lemma seedRoles_present:
  "\<forall>nm \<in> set (map fst rs). \<exists>r \<in> set coll. r_name r = Some nm \<Longrightarrow> seedRoles rs coll = (Inr (), coll)"
proof (induction rs)
  case Nil
  then show ?case by simp
next
  case (Cons a rs)
  obtain nm descr where a: "a = (nm, descr)" by (cases a)
  from Cons.prems a obtain r where "r \<in> set coll" "r_name r = Some nm" by auto
  then have "find (\<lambda>r. r_name r = Some nm) coll \<noteq> None"
    by (auto simp add: find_None_iff)
  then obtain x where "find (\<lambda>r. r_name r = Some nm) coll = Some x" by auto
  with Cons a show ?case by (simp add: getRoleByName_def)
qed

lemma seedRoles_result:
  "\<forall>nm \<in> set (map fst rs). nm \<noteq> [] \<Longrightarrow>
   \<exists>added. seedRoles rs coll = (Inr (), coll @ added) \<and>
     (\<forall>r \<in> set added. r_permissions r = [] \<and>
        (\<exists>nm \<in> set (map fst rs). r_name r = Some nm \<and> (\<forall>x \<in> set coll. r_name x \<noteq> Some nm))) \<and>
     (\<forall>nm \<in> set (map fst rs). \<exists>r \<in> set (coll @ added). r_name r = Some nm)"
proof (induction rs arbitrary: coll)
  case Nil
  then show ?case by simp
next
  case (Cons a rs)
  obtain nm descr where a: "a = (nm, descr)" by (cases a)
  from Cons.prems a have nm: "nm \<noteq> []" and rest: "\<forall>nm \<in> set (map fst rs). nm \<noteq> []" by simp_all
  show ?case
  proof (cases "find (\<lambda>r. r_name r = Some nm) coll")
    case (Some x)
    then have x: "x \<in> set coll" "r_name x = Some nm" by (auto simp add: find_Some_iff)
    from Cons.IH [OF rest, of coll] obtain added where
      s: "seedRoles rs coll = (Inr (), coll @ added)"
      and n: "\<forall>r \<in> set added. r_permissions r = [] \<and>
        (\<exists>nm \<in> set (map fst rs). r_name r = Some nm \<and> (\<forall>x \<in> set coll. r_name x \<noteq> Some nm))"
      and p: "\<forall>nm \<in> set (map fst rs). \<exists>r \<in> set (coll @ added). r_name r = Some nm"
      by blast
    from s Some a have "seedRoles (a # rs) coll = (Inr (), coll @ added)"
      by (simp add: getRoleByName_def)
    moreover from n have "\<forall>r \<in> set added. r_permissions r = [] \<and>
        (\<exists>nm \<in> set (map fst (a # rs)). r_name r = Some nm \<and> (\<forall>x \<in> set coll. r_name x \<noteq> Some nm))"
      by auto
    moreover from p x a have "\<forall>nm \<in> set (map fst (a # rs)). \<exists>r \<in> set (coll @ added). r_name r = Some nm"
      by auto
    ultimately show ?thesis by blast
  next
    case None
    let ?doc = "\<lparr>r_name = Some nm, r_description = Some descr, r_permissions = []\<rparr>"
    from None have absent: "\<forall>x \<in> set coll. r_name x \<noteq> Some nm"
      by (auto simp add: find_None_iff)
    from Cons.IH [OF rest, of "coll @ [?doc]"] obtain added where
      s: "seedRoles rs (coll @ [?doc]) = (Inr (), (coll @ [?doc]) @ added)"
      and n: "\<forall>r \<in> set added. r_permissions r = [] \<and>
        (\<exists>nm \<in> set (map fst rs). r_name r = Some nm \<and> (\<forall>x \<in> set (coll @ [?doc]). r_name x \<noteq> Some nm))"
      and p: "\<forall>nm \<in> set (map fst rs). \<exists>r \<in> set ((coll @ [?doc]) @ added). r_name r = Some nm"
      by blast
    from s None a nm have "seedRoles (a # rs) coll = (Inr (), coll @ (?doc # added))"
      by (simp add: getRoleByName_def createRole_def)
    moreover from n absent a have "\<forall>r \<in> set (?doc # added). r_permissions r = [] \<and>
        (\<exists>nm \<in> set (map fst (a # rs)). r_name r = Some nm \<and> (\<forall>x \<in> set coll. r_name x \<noteq> Some nm))"
      by auto
    moreover from p a have "\<forall>nm \<in> set (map fst (a # rs)). \<exists>r \<in> set (coll @ (?doc # added)). r_name r = Some nm"
      by auto
    ultimately show ?thesis by blast
  qed
qed

lemma defaultRoles_names: "\<forall>nm \<in> set (map fst defaultRoles). nm \<noteq> []"
  by (simp add: defaultRoles_def)

text \<open>
  C9, as the code has it. On an empty collection \<open>initializeDefaultRoles\<close> creates
  exactly the roles \<open>admin\<close>, \<open>developer\<close>, \<open>editor\<close> and \<open>user\<close>, each with its name and
  description and with no permissions. On any collection it succeeds, keeps the
  documents that are there, appends only default roles whose exact name no document
  has, and running it again on the result changes nothing. The default permission
  matrix is a separate constant: its keys are the same four names, each over
  \<open>create\<close>, \<open>read\<close>, \<open>write\<close> and \<open>delete\<close>.
\<close>

theorem initializeDefaultRoles_seeds:
  "initializeDefaultRoles [] =
     (Inr (),
      [\<lparr>r_name = Some ''admin'', r_description = Some ''Administrator with all permissions'',
        r_permissions = []\<rparr>,
       \<lparr>r_name = Some ''developer'', r_description = Some ''Developer with elevated permissions'',
        r_permissions = []\<rparr>,
       \<lparr>r_name = Some ''editor'', r_description = Some ''Content editor'', r_permissions = []\<rparr>,
       \<lparr>r_name = Some ''user'', r_description = Some ''Regular user with basic permissions'',
        r_permissions = []\<rparr>])
 \<and> (\<exists>added. initializeDefaultRoles coll = (Inr (), coll @ added) \<and>
      (\<forall>r \<in> set added. r_permissions r = [] \<and>
         (\<exists>nm \<in> set (map fst defaultRoles). r_name r = Some nm \<and> (\<forall>x \<in> set coll. r_name x \<noteq> Some nm))) \<and>
      (\<forall>nm \<in> set (map fst defaultRoles). \<exists>r \<in> set (coll @ added). r_name r = Some nm) \<and>
      initializeDefaultRoles (coll @ added) = (Inr (), coll @ added))
 \<and> map fst defaultPermissions = map fst defaultRoles
 \<and> (\<forall>ps \<in> set (map snd defaultPermissions). set (map fst ps) = set permissions)"
proof (intro conjI)
  show "initializeDefaultRoles [] =
     (Inr (),
      [\<lparr>r_name = Some ''admin'', r_description = Some ''Administrator with all permissions'',
        r_permissions = []\<rparr>,
       \<lparr>r_name = Some ''developer'', r_description = Some ''Developer with elevated permissions'',
        r_permissions = []\<rparr>,
       \<lparr>r_name = Some ''editor'', r_description = Some ''Content editor'', r_permissions = []\<rparr>,
       \<lparr>r_name = Some ''user'', r_description = Some ''Regular user with basic permissions'',
        r_permissions = []\<rparr>])"
    by (simp add: initializeDefaultRoles_def defaultRoles_def getRoleByName_def createRole_def)
next
  from seedRoles_result [OF defaultRoles_names, of coll] obtain added where
    s: "initializeDefaultRoles coll = (Inr (), coll @ added)"
    and n: "\<forall>r \<in> set added. r_permissions r = [] \<and>
         (\<exists>nm \<in> set (map fst defaultRoles). r_name r = Some nm \<and> (\<forall>x \<in> set coll. r_name x \<noteq> Some nm))"
    and p: "\<forall>nm \<in> set (map fst defaultRoles). \<exists>r \<in> set (coll @ added). r_name r = Some nm"
    unfolding initializeDefaultRoles_def by blast
  from seedRoles_present [OF p] have "initializeDefaultRoles (coll @ added) = (Inr (), coll @ added)"
    by (simp add: initializeDefaultRoles_def)
  with s n p show "\<exists>added. initializeDefaultRoles coll = (Inr (), coll @ added) \<and>
      (\<forall>r \<in> set added. r_permissions r = [] \<and>
         (\<exists>nm \<in> set (map fst defaultRoles). r_name r = Some nm \<and> (\<forall>x \<in> set coll. r_name x \<noteq> Some nm))) \<and>
      (\<forall>nm \<in> set (map fst defaultRoles). \<exists>r \<in> set (coll @ added). r_name r = Some nm) \<and>
      initializeDefaultRoles (coll @ added) = (Inr (), coll @ added)"
    by blast
next
  show "map fst defaultPermissions = map fst defaultRoles"
    by (simp add: defaultPermissions_eq defaultRoles_def)
next
  show "\<forall>ps \<in> set (map snd defaultPermissions). set (map fst ps) = set permissions"
    by (auto simp add: defaultPermissions_eq permissions_def)
qed

text \<open>
  With \<open>Admin\<close> and \<open>editor\<close> present, \<open>admin\<close>, \<open>developer\<close> and \<open>user\<close> are added, the
  role \<open>editor\<close> keeps its description and permission, and a second run adds nothing.
\<close>

theorem initializeDefaultRoles_seeds_witness:
  "initializeDefaultRoles mixedRoles =
     (Inr (), mixedRoles @
       [\<lparr>r_name = Some ''admin'', r_description = Some ''Administrator with all permissions'',
         r_permissions = []\<rparr>,
        \<lparr>r_name = Some ''developer'', r_description = Some ''Developer with elevated permissions'',
         r_permissions = []\<rparr>,
        \<lparr>r_name = Some ''user'', r_description = Some ''Regular user with basic permissions'',
         r_permissions = []\<rparr>])
 \<and> initializeDefaultRoles (mixedRoles @
       [\<lparr>r_name = Some ''admin'', r_description = Some ''Administrator with all permissions'',
         r_permissions = []\<rparr>,
        \<lparr>r_name = Some ''developer'', r_description = Some ''Developer with elevated permissions'',
         r_permissions = []\<rparr>,
        \<lparr>r_name = Some ''user'', r_description = Some ''Regular user with basic permissions'',
         r_permissions = []\<rparr>]) =
     (Inr (), mixedRoles @
       [\<lparr>r_name = Some ''admin'', r_description = Some ''Administrator with all permissions'',
         r_permissions = []\<rparr>,
        \<lparr>r_name = Some ''developer'', r_description = Some ''Developer with elevated permissions'',
         r_permissions = []\<rparr>,
        \<lparr>r_name = Some ''user'', r_description = Some ''Regular user with basic permissions'',
         r_permissions = []\<rparr>])"
proof -
  let ?new = "[\<lparr>r_name = Some ''admin'', r_description = Some ''Administrator with all permissions'',
         r_permissions = []\<rparr>,
        \<lparr>r_name = Some ''developer'', r_description = Some ''Developer with elevated permissions'',
         r_permissions = []\<rparr>,
        \<lparr>r_name = Some ''user'', r_description = Some ''Regular user with basic permissions'',
         r_permissions = []\<rparr>]"
  have e: "initializeDefaultRoles mixedRoles = (Inr (), mixedRoles @ ?new)"
    by (simp add: initializeDefaultRoles_def defaultRoles_def getRoleByName_def createRole_def
        mixedRoles_def)
  from initializeDefaultRoles_seeds [of mixedRoles] obtain added where
    a: "initializeDefaultRoles mixedRoles = (Inr (), mixedRoles @ added)"
    and i: "initializeDefaultRoles (mixedRoles @ added) = (Inr (), mixedRoles @ added)"
    by blast
  from a e have "added = ?new" by simp
  with i e show ?thesis by simp
qed

text \<open>
  The roles seeded carry no permission matrix: their permission lists are empty. And
  when some of the roles exist already, the missing ones are still created.
\<close>

theorem initializeDefaultRoles_counterexample:
  "map r_permissions (snd (initializeDefaultRoles [])) = [[], [], [], []]
 \<and> map r_name (snd (initializeDefaultRoles [])) =
     [Some ''admin'', Some ''developer'', Some ''editor'', Some ''user'']
 \<and> map r_name (snd (initializeDefaultRoles mixedRoles)) =
     [Some ''Admin'', Some ''editor'', Some ''admin'', Some ''developer'', Some ''user'']"
  by (simp add: initializeDefaultRoles_def defaultRoles_def getRoleByName_def createRole_def
      mixedRoles_def)

end
